theory Spec2Isabelle
  imports Main "HOL-Library.Word" "HOL-Library.List_Lexorder" "HOL-Library.Multiset"
begin

unbundle bit_operations_syntax

section \<open>Python values\<close>

text \<open>
  The notebook \<^verbatim>\<open>python_examples/upload_package.ipynb\<close> is Python 3. A \<^verbatim>\<open>str\<close> is a
  sequence of Unicode code points (so a lone surrogate is a legal element of a \<^verbatim>\<open>str\<close>),
  a \<^verbatim>\<open>bytes\<close> object is a sequence of octets, and \<^verbatim>\<open>len\<close> counts elements.
\<close>

type_synonym codepoint = nat
type_synonym py_str = "codepoint list"
type_synonym byte = "8 word"
type_synonym py_bytes = "byte list"

text \<open>A string literal of the source, as the code points of its (ASCII) characters.\<close>

definition lit :: "string \<Rightarrow> py_str" where
  "lit s = map of_char s"

text \<open>
  What a caller can pass as \<^verbatim>\<open>science_object\<close>: the two classes the function tests for with
  \<^verbatim>\<open>isinstance\<close>, and any object of another class.
\<close>

datatype py_value = Bytes py_bytes | Str py_str | Other

text \<open>
  The exceptions of the flow. \<^verbatim>\<open>UnicodeEncodeError\<close> is raised by \<^verbatim>\<open>str.encode\<close> and
  carries the position of the offending code point; in Python it is a subclass of
  \<^verbatim>\<open>ValueError\<close>. \<^verbatim>\<open>ValidationError\<close> is what the generated DataONE binding raises when an
  assignment is rejected by the schema type of the element; \<^verbatim>\<open>OSError\<close> comes from opening
  or reading a file, \<^verbatim>\<open>ClientError\<close> from \<^verbatim>\<open>client.create\<close>.
\<close>

datatype py_error =
    ValueError py_str
  | UnicodeEncodeError nat
  | ValidationError py_str
  | OSError
  | ClientError

fun isinstance_ValueError :: "py_error \<Rightarrow> bool" where
  "isinstance_ValueError (ValueError m) = True"
| "isinstance_ValueError (UnicodeEncodeError i) = True"
| "isinstance_ValueError e = False"

text \<open>Sequencing of calls that may raise: the first exception ends the computation.\<close>

fun and_then :: "'e + 'a \<Rightarrow> ('a \<Rightarrow> 'e + 'b) \<Rightarrow> 'e + 'b" where
  "and_then (Inl e) f = Inl e"
| "and_then (Inr x) f = f x"

subsection \<open>\<^verbatim>\<open>str.encode("utf-8")\<close>\<close>

text \<open>
  The strict UTF-8 encoder: one to four octets for a code point, and
  \<^verbatim>\<open>UnicodeEncodeError\<close> at the first surrogate (U+D800 to U+DFFF).
\<close>

definition surrogate :: "codepoint \<Rightarrow> bool" where
  "surrogate c = (0xD800 \<le> c \<and> c < 0xE000)"

definition utf8_codepoint :: "codepoint \<Rightarrow> py_bytes option" where
  "utf8_codepoint c =
     (if c < 0x80 then Some [of_nat c]
      else if c < 0x800 then Some [of_nat (0xC0 + c div 64), of_nat (0x80 + c mod 64)]
      else if surrogate c then None
      else if c < 0x10000 then
        Some [of_nat (0xE0 + c div 4096), of_nat (0x80 + c div 64 mod 64),
              of_nat (0x80 + c mod 64)]
      else
        Some [of_nat (0xF0 + c div 262144), of_nat (0x80 + c div 4096 mod 64),
              of_nat (0x80 + c div 64 mod 64), of_nat (0x80 + c mod 64)])"

fun encode_from :: "nat \<Rightarrow> py_str \<Rightarrow> py_error + py_bytes" where
  "encode_from i [] = Inr []"
| "encode_from i (c # cs) =
     (case utf8_codepoint c of
        None \<Rightarrow> Inl (UnicodeEncodeError i)
      | Some bs \<Rightarrow> and_then (encode_from (Suc i) cs) (\<lambda>rest. Inr (bs @ rest)))"

definition encode_utf8 :: "py_str \<Rightarrow> py_error + py_bytes" where
  "encode_utf8 s = encode_from 0 s"

subsection \<open>\<^verbatim>\<open>hashlib.md5\<close>\<close>

text \<open>
  The MD5 message digest of RFC 1321: the message is padded with the octet 0x80, zeros up
  to 56 modulo 64 octets and its length in bits as 64 bits, little endian; each block of
  64 octets is sixteen little-endian 32-bit words, mixed into four 32-bit registers in 64
  steps.
\<close>

type_synonym u32 = "32 word"

fun le_bytes :: "nat \<Rightarrow> nat \<Rightarrow> py_bytes" where
  "le_bytes 0 n = []"
| "le_bytes (Suc k) n = of_nat (n mod 256) # le_bytes k (n div 256)"

definition md5_pad :: "py_bytes \<Rightarrow> py_bytes" where
  "md5_pad m =
     m @ [0x80] @ replicate ((119 - length m mod 64) mod 64) 0
       @ le_bytes 8 ((8 * length m) mod 2 ^ 64)"

fun le_word :: "py_bytes \<Rightarrow> u32" where
  "le_word [] = 0"
| "le_word (b # bs) = ucast b + 256 * le_word bs"

fun md5_words :: "nat \<Rightarrow> py_bytes \<Rightarrow> u32 list" where
  "md5_words 0 bs = []"
| "md5_words (Suc n) bs = le_word (take 4 bs) # md5_words n (drop 4 bs)"

fun md5_blocks :: "nat \<Rightarrow> py_bytes \<Rightarrow> u32 list list" where
  "md5_blocks 0 bs = []"
| "md5_blocks (Suc n) bs = md5_words 16 (take 64 bs) # md5_blocks n (drop 64 bs)"

definition md5_K :: "u32 list" where
  "md5_K =
    [0xd76aa478, 0xe8c7b756, 0x242070db, 0xc1bdceee,
     0xf57c0faf, 0x4787c62a, 0xa8304613, 0xfd469501,
     0x698098d8, 0x8b44f7af, 0xffff5bb1, 0x895cd7be,
     0x6b901122, 0xfd987193, 0xa679438e, 0x49b40821,
     0xf61e2562, 0xc040b340, 0x265e5a51, 0xe9b6c7aa,
     0xd62f105d, 0x02441453, 0xd8a1e681, 0xe7d3fbc8,
     0x21e1cde6, 0xc33707d6, 0xf4d50d87, 0x455a14ed,
     0xa9e3e905, 0xfcefa3f8, 0x676f02d9, 0x8d2a4c8a,
     0xfffa3942, 0x8771f681, 0x6d9d6122, 0xfde5380c,
     0xa4beea44, 0x4bdecfa9, 0xf6bb4b60, 0xbebfbc70,
     0x289b7ec6, 0xeaa127fa, 0xd4ef3085, 0x04881d05,
     0xd9d4d039, 0xe6db99e5, 0x1fa27cf8, 0xc4ac5665,
     0xf4292244, 0x432aff97, 0xab9423a7, 0xfc93a039,
     0x655b59c3, 0x8f0ccc92, 0xffeff47d, 0x85845dd1,
     0x6fa87e4f, 0xfe2ce6e0, 0xa3014314, 0x4e0811a1,
     0xf7537e82, 0xbd3af235, 0x2ad7d2bb, 0xeb86d391]"

definition md5_S :: "nat list" where
  "md5_S =
    [7, 12, 17, 22, 7, 12, 17, 22, 7, 12, 17, 22, 7, 12, 17, 22,
     5, 9, 14, 20, 5, 9, 14, 20, 5, 9, 14, 20, 5, 9, 14, 20,
     4, 11, 16, 23, 4, 11, 16, 23, 4, 11, 16, 23, 4, 11, 16, 23,
     6, 10, 15, 21, 6, 10, 15, 21, 6, 10, 15, 21, 6, 10, 15, 21]"

definition rotl32 :: "nat \<Rightarrow> u32 \<Rightarrow> u32" where
  "rotl32 n w = push_bit n w OR drop_bit (32 - n) w"

type_synonym md5_regs = "u32 \<times> u32 \<times> u32 \<times> u32"

fun md5_step :: "u32 list \<Rightarrow> md5_regs \<Rightarrow> nat \<Rightarrow> md5_regs" where
  "md5_step M (a, b, c, d) i =
     (let f = (if i < 16 then (b AND c) OR (NOT b AND d)
               else if i < 32 then (d AND b) OR (NOT d AND c)
               else if i < 48 then b XOR c XOR d
               else c XOR (b OR NOT d));
          g = (if i < 16 then i
               else if i < 32 then (5 * i + 1) mod 16
               else if i < 48 then (3 * i + 5) mod 16
               else (7 * i) mod 16)
      in (d, b + rotl32 (md5_S ! i) (a + f + md5_K ! i + M ! g), b, c))"

fun md5_block :: "md5_regs \<Rightarrow> u32 list \<Rightarrow> md5_regs" where
  "md5_block (a, b, c, d) M =
     (case foldl (md5_step M) (a, b, c, d) [0..<64] of
        (a', b', c', d') \<Rightarrow> (a + a', b + b', c + c', d + d'))"

definition md5_init :: md5_regs where
  "md5_init = (0x67452301, 0xefcdab89, 0x98badcfe, 0x10325476)"

definition md5_digest :: "py_bytes \<Rightarrow> py_bytes" where
  "md5_digest m =
     (let p = md5_pad m in
      case foldl md5_block md5_init (md5_blocks (length p div 64) p) of
        (a, b, c, d) \<Rightarrow>
          le_bytes 4 (unat a) @ le_bytes 4 (unat b) @ le_bytes 4 (unat c) @ le_bytes 4 (unat d))"

definition hex_digit :: "nat \<Rightarrow> codepoint" where
  "hex_digit n = (if n < 10 then 48 + n else 87 + n)"

definition hex_of_bytes :: "py_bytes \<Rightarrow> py_str" where
  "hex_of_bytes bs = concat (map (\<lambda>b. [hex_digit (unat b div 16), hex_digit (unat b mod 16)]) bs)"

text \<open>
  The hash object: \<^verbatim>\<open>hashlib.md5()\<close> starts with the empty message, \<^verbatim>\<open>update\<close> appends
  to the message, \<^verbatim>\<open>hexdigest\<close> is the digest of the message so far in lower-case
  hexadecimal.
\<close>

record md5_object =
  message :: py_bytes

definition hashlib_md5 :: md5_object where
  "hashlib_md5 = \<lparr>message = []\<rparr>"

definition update :: "md5_object \<Rightarrow> py_bytes \<Rightarrow> md5_object" where
  "update h data = h\<lparr>message := message h @ data\<rparr>"

definition hexdigest :: "md5_object \<Rightarrow> py_str" where
  "hexdigest h = hex_of_bytes (md5_digest (message h))"


section \<open>The system metadata record\<close>

text \<open>
  \<^verbatim>\<open>dataoneTypes\<close> is the binding generated from the DataONE XML schema, a library outside
  this repository. \<^verbatim>\<open>dataoneTypes.systemMetadata()\<close> is an object whose elements are set by
  assignment; the fields below are the elements the notebook assigns. \<^verbatim>\<open>fileName\<close> is the
  one element that may stay unset. An access rule holds a list of subjects and a list of
  permissions (the source appends to both), and an access policy a list of rules.
\<close>

type_synonym datetime = nat

record checksum =
  digest :: py_str
  algorithm :: py_str

record AccessRule =
  subject :: "py_str list"
  permission :: "py_str list"

record accessPolicy =
  allow :: "AccessRule list"

record systemMetadata =
  "identifier" :: py_str
  formatId :: py_str
  size_field :: nat
  rightsHolder :: py_str
  fileName :: "py_str option"
  checksum :: checksum
  dateUploaded :: datetime
  dateSysMetadataModified :: datetime
  accessPolicy :: accessPolicy

text \<open>
  An assignment to an element of a binding object converts the value to the schema type
  of the element and raises when that type rejects the value. The schema is not part of
  the repository, so which caller-supplied strings it accepts is a parameter of the
  model: one test for each element that receives an argument of
  \<^verbatim>\<open>generate_system_metadata\<close> as it is. The values the function computes itself (a
  length, a hexadecimal digest, the time, the fixed policy) are of the element's type.
\<close>

record dataoneTypes =
  accepts_identifier :: "py_str \<Rightarrow> bool"
  accepts_formatId :: "py_str \<Rightarrow> bool"
  accepts_rightsHolder :: "py_str \<Rightarrow> bool"
  accepts_fileName :: "py_str \<Rightarrow> bool"

definition assign :: "(py_str \<Rightarrow> bool) \<Rightarrow> string \<Rightarrow> py_str \<Rightarrow> py_error + py_str" where
  "assign accepts element v = (if accepts v then Inr v else Inl (ValidationError (lit element)))"

text \<open>\<^verbatim>\<open>d1_common.const.SUBJECT_PUBLIC\<close>, as the recorded output of the notebook shows it.\<close>

definition SUBJECT_PUBLIC :: py_str where
  "SUBJECT_PUBLIC = lit ''public''"

section \<open>The functions of the notebook\<close>

subsection \<open>\<^verbatim>\<open>flatten_filepath\<close>\<close>

text \<open>
  \<^verbatim>\<open>str.replace(old, new)\<close> for a non-empty \<^verbatim>\<open>old\<close>: the occurrences of \<^verbatim>\<open>old\<close> are
  found from the left and do not overlap. With an empty \<^verbatim>\<open>old\<close>, Python puts \<^verbatim>\<open>new\<close>
  before every element and at the end.
\<close>

function replace :: "py_str \<Rightarrow> py_str \<Rightarrow> py_str \<Rightarrow> py_str" where
  "replace old new s =
     (if old = [] then new @ concat (map (\<lambda>c. c # new) s)
      else if s = [] then []
      else if take (length old) s = old then new @ replace old new (drop (length old) s)
      else hd s # replace old new (tl s))"
  by pat_completeness auto
termination
  by (relation "measure (\<lambda>(old, new, s). length s)") auto

declare replace.simps [simp del]

text \<open>
  \<^verbatim>\<open>os.path.sep\<close> is one character, \<^verbatim>\<open>/\<close> on POSIX and a backslash on Windows; it is the
  first argument here. The second is \<^verbatim>\<open>str(path)\<close>.
\<close>

definition flatten_filepath :: "codepoint \<Rightarrow> py_str \<Rightarrow> py_str" where
  "flatten_filepath sep path = replace [sep] (lit ''__'') path"

subsection \<open>\<^verbatim>\<open>generate_public_access_policy\<close>\<close>

definition generate_public_access_policy :: accessPolicy where
  "generate_public_access_policy =
     (let accessPolicy = \<lparr>allow = []\<rparr>;
          accessRule = \<lparr>subject = [], permission = []\<rparr>;
          accessRule = accessRule\<lparr>subject := subject accessRule @ [SUBJECT_PUBLIC]\<rparr>;
          accessRule = accessRule\<lparr>permission := permission accessRule @ [lit ''read'']\<rparr>
      in accessPolicy\<lparr>allow := allow accessPolicy @ [accessRule]\<rparr>)"

subsection \<open>\<^verbatim>\<open>generate_system_metadata\<close>\<close>

text \<open>
  The first statement of the function: \<^verbatim>\<open>bytes\<close> pass, a \<^verbatim>\<open>str\<close> is encoded, anything
  else raises the function's own \<^verbatim>\<open>ValueError\<close>.
\<close>

definition coerce :: "py_value \<Rightarrow> py_error + py_bytes" where
  "coerce science_object =
     (case science_object of
        Bytes b \<Rightarrow> Inr b
      | Str s \<Rightarrow> encode_utf8 s
      | Other \<Rightarrow> Inl (ValueError (lit ''Supplied science_object is not unicode'')))"

text \<open>\<^verbatim>\<open>if filename:\<close> holds for a string that is neither \<^verbatim>\<open>None\<close> nor empty.\<close>

definition truthy :: "py_str option \<Rightarrow> bool" where
  "truthy filename = (case filename of None \<Rightarrow> False | Some f \<Rightarrow> f \<noteq> [])"

text \<open>
  The arguments are the binding, the value that \<^verbatim>\<open>datetime.datetime.now()\<close> returns in
  this call, and the five arguments of the source. The assignments are made in the
  order of the source, so the first one that the binding rejects decides the exception.
\<close>

definition generate_system_metadata ::
  "dataoneTypes \<Rightarrow> datetime \<Rightarrow> py_str \<Rightarrow> py_str \<Rightarrow> py_value \<Rightarrow> py_str \<Rightarrow> py_str option
     \<Rightarrow> py_error + systemMetadata" where
  "generate_system_metadata T now pid format_id science_object orcid filename =
     and_then (coerce science_object) (\<lambda>science_object.
       let size = length science_object;
           md5 = hexdigest (update hashlib_md5 science_object)
       in
       and_then (assign (accepts_identifier T) ''identifier'' pid) (\<lambda>identifier.
       and_then (assign (accepts_formatId T) ''formatId'' format_id) (\<lambda>formatId.
       and_then (assign (accepts_rightsHolder T) ''rightsHolder'' orcid) (\<lambda>rightsHolder.
       and_then (if truthy filename
                 then and_then (assign (accepts_fileName T) ''fileName'' (the filename))
                        (\<lambda>f. Inr (Some f))
                 else Inr None) (\<lambda>fileName.
         Inr \<lparr>identifier = identifier,
              formatId = formatId,
              size_field = size,
              rightsHolder = rightsHolder,
              fileName = fileName,
              checksum = \<lparr>digest = md5, algorithm = lit ''MD5''\<rparr>,
              dateUploaded = now,
              dateSysMetadataModified = now,
              accessPolicy = generate_public_access_policy\<rparr>)))))"

subsection \<open>\<^verbatim>\<open>create_minimum_eml\<close>\<close>

definition create_minimum_eml :: "py_str \<Rightarrow> py_str" where
  \<open>create_minimum_eml title =
     (let top = lit ''<?xml version="1.0" encoding="UTF-8"?>'';
          namespace = lit (''<eml:eml xmlns:eml="eml://ecoinformatics.org/eml-2.1.1" ''
            @ ''xmlns:stmml="http://www.xml-cml.org/schema/stmml-1.1" ''
            @ ''xmlns:xsi="http://www.w3.org/2001/XMLSchema-instance" ''
            @ ''packageId="test_pkg" system="test_system" ''
            @ ''xsi:schemaLocation="eml://ecoinformatics.org/eml-2.1.1 eml.xsd">'');
          dataset = lit ''<dataset>'';
          individualName = lit ''<individualName><surName>Test user</surName></individualName>'';
          creator = lit ''<creator>'' @ individualName @ lit ''</creator>'';
          contact = lit ''<contact>'' @ individualName @ lit ''</contact>'';
          dataset_close = lit ''</dataset>'';
          eml_close = lit ''</eml:eml>''
      in top @ namespace @ dataset @ (lit ''<title>'' @ title @ lit ''</title>'')
           @ creator @ contact @ dataset_close @ eml_close)\<close>


section \<open>The cells of the notebook\<close>

subsection \<open>\<^verbatim>\<open>uuid.uuid4()\<close>, \<^verbatim>\<open>pathlib.Path\<close> and \<^verbatim>\<open>sorted\<close>\<close>

text \<open>
  A UUID is a 128-bit number. Its attribute \<^verbatim>\<open>hex\<close> is the number in 32 lower-case
  hexadecimal digits, and \<^verbatim>\<open>str\<close> of it cuts these digits into groups of 8, 4, 4, 4 and
  12, joined by hyphens.
\<close>

type_synonym UUID = "128 word"

fun hex_digits :: "nat \<Rightarrow> nat \<Rightarrow> py_str" where
  "hex_digits 0 n = []"
| "hex_digits (Suc k) n = hex_digits k (n div 16) @ [hex_digit (n mod 16)]"

definition uuid_hex :: "UUID \<Rightarrow> py_str" where
  "uuid_hex u = hex_digits 32 (unat u)"

definition uuid_str :: "UUID \<Rightarrow> py_str" where
  "uuid_str u =
     (let hex = uuid_hex u
      in take 8 hex @ lit ''-'' @ take 4 (drop 8 hex) @ lit ''-'' @ take 4 (drop 12 hex)
           @ lit ''-'' @ take 4 (drop 16 hex) @ lit ''-'' @ drop 20 hex)"

text \<open>
  A relative \<^verbatim>\<open>PosixPath\<close> is the list of its parts. \<^verbatim>\<open>str\<close> of it joins the parts with
  the separator. Paths are compared as the lists of their parts and the parts as the
  lists of their code points, which is the order \<open>\<le>\<close> on lists of lists of numbers;
  \<^verbatim>\<open>sorted\<close> returns the one ascending arrangement of its argument in this order.
\<close>

type_synonym path = "py_str list"

definition posix_sep :: codepoint where
  "posix_sep = of_char CHR ''/''"

fun str_of_path :: "path \<Rightarrow> py_str" where
  "str_of_path [] = lit ''.''"
| "str_of_path [part] = part"
| "str_of_path (part # parts) = part @ [posix_sep] @ str_of_path parts"

definition sorted_paths :: "path list \<Rightarrow> path list" where
  "sorted_paths ps = sort ps"

subsection \<open>What the run depends on\<close>

text \<open>
  The resource map comes from \<^verbatim>\<open>d1_common.resource_map.createSimpleResourceMap\<close>, a
  library function. The model keeps the three arguments the object is built from; the
  identifiers the map aggregates are the science metadata identifier and the science
  object identifiers, as in the output that the notebook records.
\<close>

record ResourceMap =
  map_pid :: py_str
  metadata_pid :: py_str
  object_pids :: "py_str list"

definition createSimpleResourceMap :: "py_str \<Rightarrow> py_str \<Rightarrow> py_str list \<Rightarrow> ResourceMap" where
  "createSimpleResourceMap ore_pid scimeta_pid sciobj_pid_list =
     \<lparr>map_pid = ore_pid, metadata_pid = scimeta_pid, object_pids = sciobj_pid_list\<rparr>"

definition aggregates :: "ResourceMap \<Rightarrow> py_str list" where
  "aggregates ore = metadata_pid ore # object_pids ore"

text \<open>
  What the notebook observes and writes are the calls of \<^verbatim>\<open>client.create\<close>, each with its
  return, and the call that builds the resource map.
\<close>

datatype event =
    Create py_str py_value systemMetadata
  | Created py_str
  | ResourceMapBuilt py_str py_str "py_str list"

text \<open>
  The surroundings of one run: the binding, the values that \<^verbatim>\<open>uuid.uuid4()\<close> returns in
  the order of the calls, the time that each call of \<^verbatim>\<open>generate_system_metadata\<close>
  samples, what \<^verbatim>\<open>Path(d).rglob('*')\<close> lists below a directory (in the order of the
  operating system), what opening and reading a path gives, whether the member node
  accepts a \<^verbatim>\<open>create\<close> after the events so far, how the resource map serializes (to
  \<^verbatim>\<open>bytes\<close> or to \<^verbatim>\<open>str\<close>, depending on the library version), and the \<^verbatim>\<open>orcid\<close> that the
  user has set.
\<close>

record environment =
  binding :: dataoneTypes
  uuid4 :: "nat \<Rightarrow> UUID"
  clock :: "nat \<Rightarrow> datetime"
  rglob :: "py_str \<Rightarrow> path list"
  read_bytes :: "path \<Rightarrow> py_error + py_bytes"
  node_accepts :: "event list \<Rightarrow> py_str \<Rightarrow> py_value \<Rightarrow> systemMetadata \<Rightarrow> bool"
  serialize :: "ResourceMap \<Rightarrow> py_value"
  user_orcid :: py_str

text \<open>
  The state of a run: the events so far and how often \<^verbatim>\<open>uuid.uuid4()\<close> and
  \<^verbatim>\<open>generate_system_metadata\<close> have been called. A step returns a value or an exception,
  and the state after it; an exception ends the run, and what has happened stays.
\<close>

record state =
  events :: "event list"
  uuid_calls :: nat
  metadata_calls :: nat

type_synonym 'a step = "state \<Rightarrow> (py_error + 'a) \<times> state"

definition return :: "'a \<Rightarrow> 'a step" where
  "return x s = (Inr x, s)"

definition lift :: "py_error + 'a \<Rightarrow> 'a step" where
  "lift r s = (r, s)"

definition bind :: "'a step \<Rightarrow> ('a \<Rightarrow> 'b step) \<Rightarrow> 'b step" where
  "bind m f s = (case m s of (Inl e, s') \<Rightarrow> (Inl e, s') | (Inr x, s') \<Rightarrow> f x s')"

definition new_uuid :: "environment \<Rightarrow> UUID step" where
  "new_uuid env s = (Inr (uuid4 env (uuid_calls s)), s\<lparr>uuid_calls := Suc (uuid_calls s)\<rparr>)"

definition system_metadata ::
  "environment \<Rightarrow> py_str \<Rightarrow> py_str \<Rightarrow> py_value \<Rightarrow> py_str option \<Rightarrow> systemMetadata step" where
  "system_metadata env pid format_id science_object filename s =
     (generate_system_metadata (binding env) (clock env (metadata_calls s)) pid format_id
        science_object (user_orcid env) filename,
      s\<lparr>metadata_calls := Suc (metadata_calls s)\<rparr>)"

definition client_create ::
  "environment \<Rightarrow> py_str \<Rightarrow> py_value \<Rightarrow> systemMetadata \<Rightarrow> unit step" where
  "client_create env pid obj sysmeta s =
     (if node_accepts env (events s) pid obj sysmeta
      then (Inr (), s\<lparr>events := events s @ [Create pid obj sysmeta, Created pid]\<rparr>)
      else (Inl ClientError, s\<lparr>events := events s @ [Create pid obj sysmeta]\<rparr>))"

definition build_resource_map ::
  "py_str \<Rightarrow> py_str \<Rightarrow> py_str list \<Rightarrow> ResourceMap step" where
  "build_resource_map ore_pid eml_pid data_pids s =
     (Inr (createSimpleResourceMap ore_pid eml_pid data_pids),
      s\<lparr>events := events s @ [ResourceMapBuilt ore_pid eml_pid data_pids]\<rparr>)"

subsection \<open>The cells\<close>

text \<open>The list \<^verbatim>\<open>files\<close>: the entries below the two directories, sorted, each as text.\<close>

record file_entry =
  data_path :: path
  data_format :: py_str

definition files :: "environment \<Rightarrow> file_entry list" where
  "files env =
     map (\<lambda>path. \<lparr>data_path = path, data_format = lit ''text/plain''\<rparr>)
       (sorted_paths (rglob env (lit ''tmp1'') @ rglob env (lit ''tmp2'')))"

text \<open>The title: a fixed text and the first eight digits of a fresh UUID.\<close>

definition make_title :: "environment \<Rightarrow> py_str step" where
  "make_title env =
     bind (new_uuid env) (\<lambda>u. return (lit ''Test data package '' @ take 8 (uuid_hex u)))"

text \<open>Create and upload the EML.\<close>

definition upload_eml :: "environment \<Rightarrow> py_str \<Rightarrow> py_str step" where
  "upload_eml env title =
     bind (new_uuid env) (\<lambda>u.
       let eml_pid = uuid_str u;
           eml = create_minimum_eml title
       in
       bind (lift (encode_utf8 eml)) (\<lambda>eml_bytes.
       bind (system_metadata env eml_pid (lit ''eml://ecoinformatics.org/eml-2.1.1'')
               (Bytes eml_bytes) None) (\<lambda>meta_sm.
       bind (client_create env eml_pid (Bytes eml_bytes) meta_sm) (\<lambda>_.
       return eml_pid))))"

text \<open>
  Create and upload the data: the loop over \<^verbatim>\<open>files\<close>, with \<^verbatim>\<open>data_pids\<close> as it grows.
\<close>

fun upload_data :: "environment \<Rightarrow> file_entry list \<Rightarrow> py_str list \<Rightarrow> (py_str list) step" where
  "upload_data env [] data_pids = return data_pids"
| "upload_data env (data # rest) data_pids =
     bind (new_uuid env) (\<lambda>u.
       let data_pid = uuid_hex u;
           data_pids = data_pids @ [data_pid]
       in
       bind (lift (read_bytes env (data_path data))) (\<lambda>data_bytes.
       bind (system_metadata env data_pid (data_format data) (Bytes data_bytes)
               (Some (flatten_filepath posix_sep (str_of_path (data_path data))))) (\<lambda>data_sm.
       bind (client_create env data_pid (Bytes data_bytes) data_sm) (\<lambda>_.
       upload_data env rest data_pids))))"

text \<open>Create and upload the resource map.\<close>

definition upload_resource_map :: "environment \<Rightarrow> py_str \<Rightarrow> py_str list \<Rightarrow> py_str step" where
  "upload_resource_map env eml_pid data_pids =
     bind (new_uuid env) (\<lambda>u.
       let ore_pid = uuid_str u in
       bind (build_resource_map ore_pid eml_pid data_pids) (\<lambda>ore.
       bind (system_metadata env ore_pid (lit ''http://www.openarchives.org/ore/terms'')
               (serialize env ore) None) (\<lambda>ore_meta.
       bind (client_create env ore_pid (serialize env ore) ore_meta) (\<lambda>_.
       return ore_pid))))"

text \<open>The cells in the order of the notebook, from the state in which nothing has happened.\<close>

definition start :: state where
  "start = \<lparr>events = [], uuid_calls = 0, metadata_calls = 0\<rparr>"

definition run_notebook :: "environment \<Rightarrow> (py_error + py_str) \<times> state" where
  "run_notebook env =
     (let files = files env in
      bind (make_title env) (\<lambda>title.
      bind (upload_eml env title) (\<lambda>eml_pid.
      bind (upload_data env files []) (\<lambda>data_pids.
      upload_resource_map env eml_pid data_pids))) start)"

text \<open>The calls of \<^verbatim>\<open>client.create\<close> among the events, and the events of completed uploads.\<close>

fun create_calls :: "event list \<Rightarrow> (py_str \<times> py_value \<times> systemMetadata) list" where
  "create_calls [] = []"
| "create_calls (Create pid obj sysmeta # evs) = (pid, obj, sysmeta) # create_calls evs"
| "create_calls (ev # evs) = create_calls evs"

fun upload_events :: "(py_str \<times> py_value \<times> systemMetadata) list \<Rightarrow> event list" where
  "upload_events [] = []"
| "upload_events ((pid, obj, sysmeta) # calls) =
     Create pid obj sysmeta # Created pid # upload_events calls"

fun is_build :: "event \<Rightarrow> bool" where
  "is_build (ResourceMapBuilt ore_pid eml_pid data_pids) = True"
| "is_build ev = False"

text \<open>
  A call of \<^verbatim>\<open>client.create\<close> is the upload of a file of the list when its payload is
  what reading the path gives and its system metadata names the identifier of the call,
  the format of the entry, the length of the payload and, as the file name, the
  flattened path. (An empty name would not be recorded; the name of a path that the
  operating system lists is not empty.)
\<close>

definition upload_of ::
  "environment \<Rightarrow> file_entry \<Rightarrow> py_str \<times> py_value \<times> systemMetadata \<Rightarrow> bool" where
  "upload_of env data call =
     (case call of (pid, obj, sysmeta) \<Rightarrow>
        (case obj of
           Bytes b \<Rightarrow> read_bytes env (data_path data) = Inr b \<and> size_field sysmeta = length b
         | Str s \<Rightarrow> False
         | Other \<Rightarrow> False)
        \<and> identifier sysmeta = pid
        \<and> formatId sysmeta = data_format data
        \<and> fileName sysmeta =
            (let filename = flatten_filepath posix_sep (str_of_path (data_path data))
             in if filename = [] then None else Some filename))"

text \<open>
  The parties outside the notebook cooperate when the binding accepts what the cells
  assign (the identifiers made from UUIDs, the three formats, the \<^verbatim>\<open>orcid\<close>, the flattened
  names), every listed path can be read, the serialized resource map is \<^verbatim>\<open>bytes\<close> or an
  encodable \<^verbatim>\<open>str\<close>, and the member node accepts every \<^verbatim>\<open>create\<close>.
\<close>

definition cooperative :: "environment \<Rightarrow> bool" where
  "cooperative env =
     ((\<forall>u. accepts_identifier (binding env) (uuid_str u)
          \<and> accepts_identifier (binding env) (uuid_hex u))
      \<and> accepts_formatId (binding env) (lit ''eml://ecoinformatics.org/eml-2.1.1'')
      \<and> accepts_formatId (binding env) (lit ''text/plain'')
      \<and> accepts_formatId (binding env) (lit ''http://www.openarchives.org/ore/terms'')
      \<and> accepts_rightsHolder (binding env) (user_orcid env)
      \<and> (\<forall>data\<in>set (files env).
            (\<exists>b. read_bytes env (data_path data) = Inr b)
          \<and> accepts_fileName (binding env)
               (flatten_filepath posix_sep (str_of_path (data_path data))))
      \<and> (\<forall>ore. \<exists>b. coerce (serialize env ore) = Inr b)
      \<and> (\<forall>evs pid obj sysmeta. node_accepts env evs pid obj sysmeta))"

text \<open>A step is quiet when it builds no resource map, whatever its outcome.\<close>

definition quiet :: "'a step \<Rightarrow> bool" where
  "quiet m = (\<forall>s r s'. m s = (r, s') \<longrightarrow>
     (\<exists>new. events s' = events s @ new \<and> (\<forall>ev\<in>set new. \<not> is_build ev)))"


section \<open>Reading the title back\<close>

text \<open>
  The notebook hands the EML to an XML parser (\<^verbatim>\<open>xml.dom.minidom\<close>, a library). What such a
  parser makes of the text between the start tag and the end tag of the title element is
  fixed by XML 1.0: the text is character data, in which \<^verbatim>\<open><\<close> starts markup, \<^verbatim>\<open>&\<close>
  starts a reference that ends at \<^verbatim>\<open>;\<close> and stands for one character, a carriage return
  (with a line feed after it, if there is one) is read as a line feed, the sequence
  \<^verbatim>\<open>]]>\<close> must not occur, and every character must be a legal XML character. The reader
  below is this part of a parser: it finds the title element of the document and reads
  its character data. A title element that holds markup is reported as such and not
  read further; the rest of the document, which is the fixed template, is not examined.
\<close>

datatype xml_error =
    NoTitleElement
  | UnexpectedEnd
  | NotWellFormed
  | UndefinedReference
  | MarkupInTitle

definition xml_char :: "codepoint \<Rightarrow> bool" where
  "xml_char c =
     (c = 0x9 \<or> c = 0xA \<or> c = 0xD \<or> (0x20 \<le> c \<and> c \<le> 0xD7FF)
      \<or> (0xE000 \<le> c \<and> c \<le> 0xFFFD) \<or> (0x10000 \<le> c \<and> c \<le> 0x10FFFF))"

text \<open>The value of a digit in a character reference, decimal or hexadecimal.\<close>

definition digit_value :: "nat \<Rightarrow> codepoint \<Rightarrow> nat option" where
  "digit_value base c =
     (if 48 \<le> c \<and> c \<le> 57 then Some (c - 48)
      else if base = 16 \<and> 97 \<le> c \<and> c \<le> 102 then Some (c - 87)
      else if base = 16 \<and> 65 \<le> c \<and> c \<le> 70 then Some (c - 55)
      else None)"

fun number :: "nat \<Rightarrow> nat \<Rightarrow> py_str \<Rightarrow> nat option" where
  "number base n [] = Some n"
| "number base n (c # cs) =
     (case digit_value base c of
        None \<Rightarrow> None
      | Some d \<Rightarrow> number base (base * n + d) cs)"

text \<open>
  What stands between \<^verbatim>\<open>&\<close> and \<^verbatim>\<open>;\<close>: the name of one of the five predefined
  entities, or \<^verbatim>\<open>#\<close> and a decimal number, or \<^verbatim>\<open>#x\<close> and a hexadecimal number, of a legal
  character.
\<close>

definition character_reference :: "py_str \<Rightarrow> codepoint option" where
  "character_reference digits =
     (case digits of
        [] \<Rightarrow> None
      | d # ds \<Rightarrow>
          (case (if d = 120 then (if ds = [] then None else number 16 0 ds)
                 else number 10 0 digits) of
             None \<Rightarrow> None
           | Some n \<Rightarrow> if xml_char n then Some n else None))"

definition decode_reference :: "py_str \<Rightarrow> codepoint option" where
  "decode_reference name =
     (if name = lit ''lt'' then Some 60
      else if name = lit ''gt'' then Some 62
      else if name = lit ''amp'' then Some 38
      else if name = lit ''apos'' then Some 39
      else if name = lit ''quot'' then Some 34
      else (case name of
              [] \<Rightarrow> None
            | c # digits \<Rightarrow> if c = 35 then character_reference digits else None))"

text \<open>
  Character data up to the next \<^verbatim>\<open><\<close>: the text read so far, and the input. The result
  is the text and the input from the \<^verbatim>\<open><\<close> on.
\<close>

datatype mode = Text | AfterCR | Reference py_str

fun char_data :: "mode \<Rightarrow> py_str \<Rightarrow> py_str \<Rightarrow> xml_error + py_str \<times> py_str" where
  "char_data m text [] = Inl UnexpectedEnd"
| "char_data (Reference name) text (c # cs) =
     (if c = 59 then
        (case decode_reference name of
           None \<Rightarrow> Inl UndefinedReference
         | Some d \<Rightarrow> char_data Text (text @ [d]) cs)
      else char_data (Reference (name @ [c])) text cs)"
| "char_data m text (c # cs) =
     (if c = 60 then Inr (text, c # cs)
      else if c = 38 then char_data (Reference []) text cs
      else if c = 10 \<and> m = AfterCR then char_data Text text cs
      else if c = 13 then char_data AfterCR (text @ [10]) cs
      else if c = 93 \<and> take 2 cs = [93, 62] then Inl NotWellFormed
      else if xml_char c then char_data Text (text @ [c]) cs
      else Inl NotWellFormed)"

text \<open>The input after the first occurrence of a pattern.\<close>

fun find_after :: "py_str \<Rightarrow> py_str \<Rightarrow> py_str option" where
  "find_after pattern [] = (if pattern = [] then Some [] else None)"
| "find_after pattern (c # cs) =
     (if take (length pattern) (c # cs) = pattern then Some (drop (length pattern) (c # cs))
      else find_after pattern cs)"

definition read_title :: "py_str \<Rightarrow> xml_error + py_str" where
  "read_title document =
     (case find_after (lit ''<title>'') document of
        None \<Rightarrow> Inl NoTitleElement
      | Some content \<Rightarrow>
          (case char_data Text [] content of
             Inl e \<Rightarrow> Inl e
           | Inr (text, rest) \<Rightarrow>
               if take 8 rest = lit ''</title>'' then Inr text else Inl MarkupInTitle))"



section \<open>Values for the examples\<close>

text \<open>
  A binding with the facets that the DataONE schema publishes for these elements: an
  identifier is non-empty, at most 800 characters long and free of spaces; a format
  identifier and a subject are non-empty; a file name is any string.
\<close>

definition example_binding :: dataoneTypes where
  "example_binding =
     \<lparr>accepts_identifier = (\<lambda>s. s \<noteq> [] \<and> length s \<le> 800 \<and> 32 \<notin> set s),
      accepts_formatId = (\<lambda>s. s \<noteq> []),
      accepts_rightsHolder = (\<lambda>s. s \<noteq> []),
      accepts_fileName = (\<lambda>s. True)\<rparr>"

definition example_orcid :: py_str where
  "example_orcid = lit ''http://orcid.org/0000-0002-1756-2128''"

text \<open>
  An environment for the scenario of the notebook: two directories of two files each,
  with the contents that the notebook writes, listed by the operating system in an order
  that is not sorted; a member node that accepts every object; a serialization to bytes.
\<close>

definition example_text :: "py_str \<Rightarrow> py_str \<Rightarrow> py_bytes" where
  "example_text directory_name filename =
     map of_nat (lit ''This is '' @ filename @ lit '' in directory '' @ directory_name)"

definition example_environment :: environment where
  "example_environment =
     \<lparr>binding = example_binding,
      uuid4 = (\<lambda>n. 0x1efeefaa5c674b1ea384639ceac512a9 * of_nat (Suc n)),
      clock = (\<lambda>n. 1737738369 + n),
      rglob = (\<lambda>d. if d = lit ''tmp1'' \<or> d = lit ''tmp2''
                    then [[d, lit ''file2.txt''], [d, lit ''file1.txt'']] else []),
      read_bytes = (\<lambda>p. case p of
                       [d, f] \<Rightarrow> if (d = lit ''tmp1'' \<or> d = lit ''tmp2'')
                                    \<and> (f = lit ''file1.txt'' \<or> f = lit ''file2.txt'')
                                 then Inr (example_text d f) else Inl OSError
                     | _ \<Rightarrow> Inl OSError),
      node_accepts = (\<lambda>evs pid obj sysmeta. True),
      serialize = (\<lambda>ore. Bytes (map of_nat
                     (concat (map (\<lambda>pid. lit ''<'' @ pid @ lit ''>'') (aggregates ore))))),
      user_orcid = example_orcid\<rparr>"


section \<open>Properties of the helper functions\<close>

subsection \<open>\<^verbatim>\<open>flatten_filepath\<close>\<close>

lemma replace_Nil: "replace [sep] new [] = []"
  by (subst replace.simps) simp

lemma replace_Cons:
  "replace [sep] new (c # cs) =
     (if c = sep then new @ replace [sep] new cs else c # replace [sep] new cs)"
  by (subst replace.simps) simp

lemma replace_char: "replace [sep] new s = concat (map (\<lambda>c. if c = sep then new else [c]) s)"
  by (induction s) (simp_all add: replace_Nil replace_Cons)

text \<open>
  Claim C4. \<^verbatim>\<open>flatten_filepath\<close> replaces every path separator of the path string by the
  two characters \<^verbatim>\<open>__\<close> and leaves every other character as it is; it is not injective:
  with the POSIX separator, the distinct paths \<^verbatim>\<open>a/b\<close> and \<^verbatim>\<open>a__b\<close> have the same
  flattened name.
\<close>

theorem flatten_filepath_not_injective:
  "flatten_filepath sep path = concat (map (\<lambda>c. if c = sep then lit ''__'' else [c]) path)
   \<and> lit ''a/b'' \<noteq> lit ''a__b''
   \<and> flatten_filepath (of_char CHR ''/'') (lit ''a/b'')
       = flatten_filepath (of_char CHR ''/'') (lit ''a__b'')"
proof (intro conjI)
  show "flatten_filepath sep path = concat (map (\<lambda>c. if c = sep then lit ''__'' else [c]) path)"
    unfolding flatten_filepath_def by (rule replace_char)
  show "lit ''a/b'' \<noteq> lit ''a__b''"
    by (simp add: lit_def)
  show "flatten_filepath (of_char CHR ''/'') (lit ''a/b'')
      = flatten_filepath (of_char CHR ''/'') (lit ''a__b'')"
    by (simp add: flatten_filepath_def replace_char lit_def)
qed

theorem flatten_filepath_not_injective_witness:
  "flatten_filepath (of_char CHR ''/'') (lit ''tmp1/file1.txt'') = lit ''tmp1__file1.txt''"
  using flatten_filepath_not_injective [of "of_char CHR ''/''" "lit ''tmp1/file1.txt''"]
  by (simp add: lit_def)

subsection \<open>The encoder\<close>

lemma utf8_codepoint_None: "utf8_codepoint c = None \<longleftrightarrow> surrogate c"
  by (auto simp add: utf8_codepoint_def surrogate_def)

lemma encode_from_ok: "\<forall>c\<in>set s. \<not> surrogate c \<Longrightarrow> \<exists>b. encode_from i s = Inr b"
proof (induction s arbitrary: i)
  case Nil
  show ?case by simp
next
  case (Cons c cs)
  from Cons.prems obtain bs where bs: "utf8_codepoint c = Some bs"
    using utf8_codepoint_None [of c] by (cases "utf8_codepoint c") auto
  from Cons.prems have "\<forall>c\<in>set cs. \<not> surrogate c" by simp
  from Cons.IH [OF this, of "Suc i"] obtain b where "encode_from (Suc i) cs = Inr b" ..
  with bs show ?case by simp
qed

lemma encode_from_fail:
  "\<exists>c\<in>set s. surrogate c \<Longrightarrow>
     encode_from i s = Inl (UnicodeEncodeError (i + length (takeWhile (\<lambda>c. \<not> surrogate c) s)))"
proof (induction s arbitrary: i)
  case Nil
  then show ?case by simp
next
  case (Cons c cs)
  show ?case
  proof (cases "surrogate c")
    case True
    then have "utf8_codepoint c = None" by (simp add: utf8_codepoint_None)
    with True show ?thesis by simp
  next
    case False
    then obtain bs where bs: "utf8_codepoint c = Some bs"
      using utf8_codepoint_None [of c] by (cases "utf8_codepoint c") auto
    from False Cons.prems have "\<exists>c\<in>set cs. surrogate c" by simp
    from Cons.IH [OF this, of "Suc i"] bs False show ?thesis by simp
  qed
qed

lemma encode_from_no_ValueError: "encode_from i s \<noteq> Inl (ValueError m)"
proof (induction s arbitrary: i)
  case Nil
  show ?case by simp
next
  case (Cons c cs)
  show ?case
  proof (cases "utf8_codepoint c")
    case None
    then show ?thesis by simp
  next
    case (Some bs)
    with Cons.IH [of "Suc i"] show ?thesis
      by (cases "encode_from (Suc i) cs") auto
  qed
qed

lemma coerce_ValueError:
  "(\<exists>m. coerce science_object = Inl (ValueError m)) \<longleftrightarrow> science_object = Other"
  by (cases science_object) (auto simp add: coerce_def encode_utf8_def encode_from_no_ValueError)

lemma coerce_Str: "encode_utf8 s = Inr b \<Longrightarrow> coerce (Str s) = coerce (Bytes b)"
  by (simp add: coerce_def)

section \<open>Properties of \<^verbatim>\<open>generate_system_metadata\<close>\<close>

lemma hexdigest_update: "hexdigest (update hashlib_md5 b) = hex_of_bytes (md5_digest b)"
  by (simp add: hexdigest_def update_def hashlib_md5_def)

lemma generate_public_access_policy_eq:
  "generate_public_access_policy
     = \<lparr>allow = [\<lparr>subject = [SUBJECT_PUBLIC], permission = [lit ''read'']\<rparr>]\<rparr>"
  by (simp add: generate_public_access_policy_def)

text \<open>The function returns a record exactly in this case, and then it is this record.\<close>

lemma gsm_Inr_iff:
  "generate_system_metadata T now pid format_id science_object orcid filename = Inr r \<longleftrightarrow>
     (\<exists>b. coerce science_object = Inr b
        \<and> accepts_identifier T pid \<and> accepts_formatId T format_id \<and> accepts_rightsHolder T orcid
        \<and> (truthy filename \<longrightarrow> accepts_fileName T (the filename))
        \<and> r = \<lparr>identifier = pid, formatId = format_id, size_field = length b,
                rightsHolder = orcid,
                fileName = (if truthy filename then filename else None),
                checksum = \<lparr>digest = hexdigest (update hashlib_md5 b), algorithm = lit ''MD5''\<rparr>,
                dateUploaded = now, dateSysMetadataModified = now,
                accessPolicy = generate_public_access_policy\<rparr>)"
  apply (cases "coerce science_object")
   apply (simp add: generate_system_metadata_def)
  apply (auto simp add: generate_system_metadata_def assign_def Let_def truthy_def
      split: option.splits)
  done

lemma gsm_ValueError:
  "generate_system_metadata T now pid format_id science_object orcid filename = Inl (ValueError m)
     \<longleftrightarrow> coerce science_object = Inl (ValueError m)"
  by (cases "coerce science_object")
     (auto simp add: generate_system_metadata_def assign_def Let_def)

lemma gsm_coerce:
  "coerce x = coerce y \<Longrightarrow>
     generate_system_metadata T now pid format_id x orcid filename
   = generate_system_metadata T now pid format_id y orcid filename"
  by (simp add: generate_system_metadata_def)

text \<open>
  Claim C1. For every byte payload \<open>P\<close>, the record that \<^verbatim>\<open>generate_system_metadata\<close>
  returns has \<open>P\<close>'s length as its size, the MD5 digest of \<open>P\<close> in hexadecimal as its
  checksum, and \<^verbatim>\<open>MD5\<close> as the checksum's algorithm. The function does return a record
  whenever the binding accepts the identifier, the format, the rights holder and, where
  one is recorded, the file name.
\<close>

theorem generate_system_metadata_size_checksum:
  "(accepts_identifier T pid \<and> accepts_formatId T format_id \<and> accepts_rightsHolder T orcid
      \<and> (truthy filename \<longrightarrow> accepts_fileName T (the filename))
     \<longrightarrow> (\<exists>r. generate_system_metadata T now pid format_id (Bytes P) orcid filename = Inr r))
   \<and> (\<forall>r. generate_system_metadata T now pid format_id (Bytes P) orcid filename = Inr r \<longrightarrow>
          size_field r = length P
        \<and> digest (checksum r) = hex_of_bytes (md5_digest P)
        \<and> algorithm (checksum r) = lit ''MD5'')"
  by (auto simp add: gsm_Inr_iff coerce_def hexdigest_update)

theorem generate_system_metadata_size_checksum_witness:
  "\<exists>r. generate_system_metadata example_binding 0 (lit ''pid-1'') (lit ''text/plain'')
          (Bytes [0x61, 0x62, 0x63]) example_orcid None = Inr r
      \<and> size_field r = 3 \<and> digest (checksum r) = hex_of_bytes (md5_digest [0x61, 0x62, 0x63])
      \<and> algorithm (checksum r) = lit ''MD5''"
  using generate_system_metadata_size_checksum [of example_binding "lit ''pid-1''"
      "lit ''text/plain''" example_orcid None 0 "[0x61, 0x62, 0x63]"]
  by (auto simp add: example_binding_def example_orcid_def lit_def truthy_def)

text \<open>
  Claim C5, as the code has it. The function raises its own \<^verbatim>\<open>ValueError\<close> exactly when
  the payload is neither \<^verbatim>\<open>bytes\<close> nor \<^verbatim>\<open>str\<close>. A \<^verbatim>\<open>str\<close> payload without surrogate code
  points is encoded to UTF-8 and the call then behaves as the call with those bytes. A
  \<^verbatim>\<open>str\<close> payload that holds a surrogate code point fails in the encoder, with
  \<^verbatim>\<open>UnicodeEncodeError\<close>.
\<close>

theorem generate_system_metadata_coercion:
  "((\<exists>m. generate_system_metadata T now pid format_id science_object orcid filename
            = Inl (ValueError m)) \<longleftrightarrow> science_object = Other)
   \<and> (\<forall>s. science_object = Str s \<and> (\<forall>c\<in>set s. \<not> surrogate c) \<longrightarrow>
          (\<exists>b. encode_utf8 s = Inr b
             \<and> generate_system_metadata T now pid format_id science_object orcid filename
               = generate_system_metadata T now pid format_id (Bytes b) orcid filename))
   \<and> (\<forall>s. science_object = Str s \<and> (\<exists>c\<in>set s. surrogate c) \<longrightarrow>
          (\<exists>i. generate_system_metadata T now pid format_id science_object orcid filename
                 = Inl (UnicodeEncodeError i)))"
proof (intro conjI allI impI)
  show "(\<exists>m. generate_system_metadata T now pid format_id science_object orcid filename
            = Inl (ValueError m)) \<longleftrightarrow> science_object = Other"
    by (simp add: gsm_ValueError coerce_ValueError)
next
  fix s
  assume a: "science_object = Str s \<and> (\<forall>c\<in>set s. \<not> surrogate c)"
  then obtain b where b: "encode_utf8 s = Inr b"
    using encode_from_ok [of s 0] by (auto simp add: encode_utf8_def)
  from a b gsm_coerce [OF coerce_Str [OF b]]
  show "\<exists>b. encode_utf8 s = Inr b
      \<and> generate_system_metadata T now pid format_id science_object orcid filename
        = generate_system_metadata T now pid format_id (Bytes b) orcid filename"
    by auto
next
  fix s
  assume a: "science_object = Str s \<and> (\<exists>c\<in>set s. surrogate c)"
  then have "encode_utf8 s
      = Inl (UnicodeEncodeError (length (takeWhile (\<lambda>c. \<not> surrogate c) s)))"
    using encode_from_fail [of s 0] by (simp add: encode_utf8_def)
  with a show "\<exists>i. generate_system_metadata T now pid format_id science_object orcid filename
                 = Inl (UnicodeEncodeError i)"
    by (simp add: generate_system_metadata_def coerce_def)
qed

theorem generate_system_metadata_coercion_witness:
  "(\<exists>b. encode_utf8 [0x68, 0xE9] = Inr b
       \<and> generate_system_metadata example_binding 0 (lit ''pid-1'') (lit ''text/plain'')
            (Str [0x68, 0xE9]) example_orcid None
         = generate_system_metadata example_binding 0 (lit ''pid-1'') (lit ''text/plain'')
            (Bytes b) example_orcid None)
   \<and> (\<exists>i. generate_system_metadata example_binding 0 (lit ''pid-1'') (lit ''text/plain'')
            (Str [0x68, 0xDC00]) example_orcid None = Inl (UnicodeEncodeError i))
   \<and> (\<exists>m. generate_system_metadata example_binding 0 (lit ''pid-1'') (lit ''text/plain'')
            Other example_orcid None = Inl (ValueError m))"
  using generate_system_metadata_coercion [of example_binding 0 "lit ''pid-1''"
      "lit ''text/plain''" "Str [0x68, 0xE9]" example_orcid None]
    generate_system_metadata_coercion [of example_binding 0 "lit ''pid-1''"
      "lit ''text/plain''" "Str [0x68, 0xDC00]" example_orcid None]
    generate_system_metadata_coercion [of example_binding 0 "lit ''pid-1''"
      "lit ''text/plain''" Other example_orcid None]
  by (simp add: surrogate_def)

text \<open>
  The claim as the specification words it, that a text payload never fails and that
  only a payload of another class raises a \<^verbatim>\<open>ValueError\<close>, is false for the string that
  consists of the surrogate U+D800: the call raises \<^verbatim>\<open>UnicodeEncodeError\<close>, which is a
  \<^verbatim>\<open>ValueError\<close>.
\<close>

theorem text_payload_with_surrogate_raises:
  "generate_system_metadata example_binding 0 (lit ''pid-1'') (lit ''text/plain'')
      (Str [0xD800]) example_orcid None
     = Inl (UnicodeEncodeError 0)
   \<and> isinstance_ValueError (UnicodeEncodeError 0)"
  by (simp add: generate_system_metadata_def coerce_def encode_utf8_def utf8_codepoint_def
      surrogate_def)

text \<open>
  Claim C7. Every record that \<^verbatim>\<open>generate_system_metadata\<close> returns carries an access
  policy of exactly one rule, with the public subject as its only subject and \<^verbatim>\<open>read\<close>
  as its only permission.
\<close>

theorem generate_system_metadata_access_policy:
  "generate_system_metadata T now pid format_id science_object orcid filename = Inr r \<Longrightarrow>
     allow (accessPolicy r) = [\<lparr>subject = [SUBJECT_PUBLIC], permission = [lit ''read'']\<rparr>]
     \<and> SUBJECT_PUBLIC = lit ''public''"
  by (auto simp add: gsm_Inr_iff generate_public_access_policy_eq SUBJECT_PUBLIC_def)

theorem generate_system_metadata_access_policy_witness:
  "\<exists>r. generate_system_metadata example_binding 7 (lit ''pid-2'') (lit ''text/csv'')
          (Str (lit ''a,b'')) example_orcid (Some (lit ''t.csv'')) = Inr r
      \<and> allow (accessPolicy r) = [\<lparr>subject = [lit ''public''], permission = [lit ''read'']\<rparr>]"
proof -
  obtain r where r: "generate_system_metadata example_binding 7 (lit ''pid-2'') (lit ''text/csv'')
          (Str (lit ''a,b'')) example_orcid (Some (lit ''t.csv'')) = Inr r"
    by (simp add: generate_system_metadata_def coerce_def encode_utf8_def utf8_codepoint_def
        lit_def assign_def example_binding_def example_orcid_def truthy_def Let_def)
  from generate_system_metadata_access_policy [OF r] r show ?thesis
    by auto
qed

text \<open>
  Claim C8. Two calls with the same identifier, format, payload, rights holder and file
  name differ at most in the time they sample: when the first call returns a record,
  the second returns the same record with its own time in the two date fields, and
  within each record the two date fields hold the same time.
\<close>

theorem generate_system_metadata_twice:
  "generate_system_metadata T now1 pid format_id science_object orcid filename = Inr r1 \<Longrightarrow>
     generate_system_metadata T now2 pid format_id science_object orcid filename
       = Inr (r1\<lparr>dateUploaded := now2, dateSysMetadataModified := now2\<rparr>)
     \<and> dateUploaded r1 = now1 \<and> dateSysMetadataModified r1 = now1"
  by (auto simp add: gsm_Inr_iff)

theorem generate_system_metadata_twice_witness:
  "\<exists>r1 r2. generate_system_metadata example_binding 10 (lit ''pid-3'') (lit ''text/plain'')
          (Bytes [1, 2]) example_orcid None = Inr r1
      \<and> generate_system_metadata example_binding 25 (lit ''pid-3'') (lit ''text/plain'')
          (Bytes [1, 2]) example_orcid None = Inr r2
      \<and> r2 = r1\<lparr>dateUploaded := 25, dateSysMetadataModified := 25\<rparr>
      \<and> dateUploaded r1 = 10 \<and> dateSysMetadataModified r1 = 10
      \<and> dateUploaded r2 \<noteq> dateUploaded r1"
proof -
  obtain r1 where r1: "generate_system_metadata example_binding 10 (lit ''pid-3'')
      (lit ''text/plain'') (Bytes [1, 2]) example_orcid None = Inr r1"
    by (simp add: generate_system_metadata_def coerce_def
        lit_def assign_def example_binding_def example_orcid_def truthy_def Let_def)
  from generate_system_metadata_twice [OF r1, of 25] r1 show ?thesis
    by auto
qed

text \<open>
  Claim C10, as the code has it. For a text payload \<open>s\<close> with UTF-8 encoding \<open>b\<close>, the
  call with \<open>s\<close> and the call with \<open>b\<close> have the same outcome, and a record returned
  for \<open>s\<close> at one time is, up to the two date fields, the record returned for \<open>b\<close> at
  another time. A text payload has such an encoding when it holds no surrogate code
  point; for a text payload that holds one, no record is returned. For every payload, a
  returned record has a file name exactly when the file name argument is a non-empty
  string, and then it is that string.
\<close>

theorem generate_system_metadata_str_bytes:
  "(\<forall>b. encode_utf8 s = Inr b \<longrightarrow>
        generate_system_metadata T now pid format_id (Str s) orcid filename
          = generate_system_metadata T now pid format_id (Bytes b) orcid filename
      \<and> (\<forall>r. generate_system_metadata T now pid format_id (Str s) orcid filename = Inr r \<longrightarrow>
             generate_system_metadata T now' pid format_id (Bytes b) orcid filename
               = Inr (r\<lparr>dateUploaded := now', dateSysMetadataModified := now'\<rparr>)))
   \<and> ((\<forall>c\<in>set s. \<not> surrogate c) \<longrightarrow> (\<exists>b. encode_utf8 s = Inr b))
   \<and> ((\<exists>c\<in>set s. surrogate c) \<longrightarrow>
        (\<forall>r. generate_system_metadata T now pid format_id (Str s) orcid filename \<noteq> Inr r))
   \<and> (\<forall>r. generate_system_metadata T now pid format_id science_object orcid filename = Inr r \<longrightarrow>
          (fileName r \<noteq> None \<longleftrightarrow> (\<exists>f. filename = Some f \<and> f \<noteq> []))
        \<and> (fileName r \<noteq> None \<longrightarrow> fileName r = filename))"
proof (intro conjI allI impI)
  fix b
  assume b: "encode_utf8 s = Inr b"
  show "generate_system_metadata T now pid format_id (Str s) orcid filename
      = generate_system_metadata T now pid format_id (Bytes b) orcid filename"
    by (rule gsm_coerce [OF coerce_Str [OF b]])
next
  fix b r
  assume b: "encode_utf8 s = Inr b"
    and r: "generate_system_metadata T now pid format_id (Str s) orcid filename = Inr r"
  from r have "generate_system_metadata T now pid format_id (Bytes b) orcid filename = Inr r"
    by (simp add: gsm_coerce [OF coerce_Str [OF b]])
  then show "generate_system_metadata T now' pid format_id (Bytes b) orcid filename
      = Inr (r\<lparr>dateUploaded := now', dateSysMetadataModified := now'\<rparr>)"
    by (auto simp add: gsm_Inr_iff)
next
  assume "\<forall>c\<in>set s. \<not> surrogate c"
  then show "\<exists>b. encode_utf8 s = Inr b"
    using encode_from_ok [of s 0] by (simp add: encode_utf8_def)
next
  fix r
  assume "\<exists>c\<in>set s. surrogate c"
  then have "encode_utf8 s
      = Inl (UnicodeEncodeError (length (takeWhile (\<lambda>c. \<not> surrogate c) s)))"
    using encode_from_fail [of s 0] by (simp add: encode_utf8_def)
  then show "generate_system_metadata T now pid format_id (Str s) orcid filename \<noteq> Inr r"
    by (simp add: generate_system_metadata_def coerce_def)
next
  fix r
  assume r: "generate_system_metadata T now pid format_id science_object orcid filename = Inr r"
  then show "fileName r \<noteq> None \<longleftrightarrow> (\<exists>f. filename = Some f \<and> f \<noteq> [])"
    by (auto simp add: gsm_Inr_iff truthy_def split: option.splits)
next
  fix r
  assume r: "generate_system_metadata T now pid format_id science_object orcid filename = Inr r"
    and "fileName r \<noteq> None"
  then show "fileName r = filename"
    by (auto simp add: gsm_Inr_iff truthy_def split: option.splits if_splits)
qed

theorem generate_system_metadata_str_bytes_witness:
  "\<exists>r. generate_system_metadata example_binding 3 (lit ''pid-4'') (lit ''text/plain'')
          (Str [0x68, 0xE9]) example_orcid (Some (lit ''tmp1__file1.txt'')) = Inr r
      \<and> generate_system_metadata example_binding 4 (lit ''pid-4'') (lit ''text/plain'')
          (Bytes [0x68, 0xC3, 0xA9]) example_orcid (Some (lit ''tmp1__file1.txt''))
        = Inr (r\<lparr>dateUploaded := 4, dateSysMetadataModified := 4\<rparr>)
      \<and> fileName r = Some (lit ''tmp1__file1.txt'')"
proof -
  have e: "encode_utf8 [0x68, 0xE9] = Inr [0x68, 0xC3, 0xA9]"
    by (simp add: encode_utf8_def utf8_codepoint_def surrogate_def)
  obtain r where r: "generate_system_metadata example_binding 3 (lit ''pid-4'')
      (lit ''text/plain'') (Str [0x68, 0xE9]) example_orcid (Some (lit ''tmp1__file1.txt''))
      = Inr r"
    by (simp add: generate_system_metadata_def coerce_def e
        lit_def assign_def example_binding_def example_orcid_def truthy_def Let_def)
  note t = generate_system_metadata_str_bytes [where s = "[0x68, 0xE9]" and T = example_binding
      and now = 3 and now' = 4 and pid = "lit ''pid-4''" and format_id = "lit ''text/plain''"
      and orcid = example_orcid and filename = "Some (lit ''tmp1__file1.txt'')"
      and science_object = "Str [0x68, 0xE9]"]
  from t e r have 1: "generate_system_metadata example_binding 4 (lit ''pid-4'')
      (lit ''text/plain'') (Bytes [0x68, 0xC3, 0xA9]) example_orcid
      (Some (lit ''tmp1__file1.txt''))
        = Inr (r\<lparr>dateUploaded := 4, dateSysMetadataModified := 4\<rparr>)"
    by blast
  from t r have "fileName r \<noteq> None \<and> fileName r = Some (lit ''tmp1__file1.txt'')"
    by (auto simp add: lit_def)
  with r 1 show ?thesis by blast
qed

text \<open>
  The claim as the specification words it, for every text string, is false for the
  string \<^verbatim>\<open>a\<close> followed by the surrogate U+DFFF: the call returns no record, it raises
  \<^verbatim>\<open>UnicodeEncodeError\<close> at the second character.
\<close>

theorem text_payload_with_surrogate_yields_no_record:
  "generate_system_metadata example_binding 3 (lit ''pid-4'') (lit ''text/plain'')
      (Str [0x61, 0xDFFF]) example_orcid (Some (lit ''tmp1__file1.txt''))
     = Inl (UnicodeEncodeError 1)"
  by (simp add: generate_system_metadata_def coerce_def encode_utf8_def utf8_codepoint_def
      surrogate_def)


section \<open>Properties of the run\<close>

subsection \<open>Events\<close>

lemma upload_events_append:
  "upload_events (xs @ ys) = upload_events xs @ upload_events ys"
  by (induction xs) auto

lemma no_build_upload_events: "ev \<in> set (upload_events calls) \<Longrightarrow> \<not> is_build ev"
  by (induction calls) auto

lemma create_calls_append: "create_calls (xs @ ys) = create_calls xs @ create_calls ys"
  by (induction xs rule: create_calls.induct) auto

lemma create_calls_upload_events: "create_calls (upload_events calls) = calls"
  by (induction calls) auto

lemma first_build:
  "xs @ b # ys = pre @ b' # post \<Longrightarrow> \<forall>ev\<in>set xs. \<not> is_build ev \<Longrightarrow>
     \<forall>ev\<in>set ys. \<not> is_build ev \<Longrightarrow> is_build b' \<Longrightarrow> is_build b \<Longrightarrow>
     pre = xs \<and> b' = b \<and> post = ys"
proof (induction xs arbitrary: pre)
  case Nil
  then show ?case by (cases pre) auto
next
  case (Cons x xs)
  then show ?case by (cases pre) auto
qed

lemma upload_data_Inr:
  "upload_data env fs acc s = (Inr pids, s') \<Longrightarrow>
     \<exists>calls. events s' = events s @ upload_events calls
       \<and> pids = acc @ map fst calls
       \<and> uuid_calls s' = uuid_calls s + length fs
       \<and> map fst calls = map (\<lambda>i. uuid_hex (uuid4 env i)) [uuid_calls s ..< uuid_calls s + length fs]
       \<and> list_all2 (upload_of env) fs calls"
proof (induction fs arbitrary: acc s)
  case Nil
  then show ?case by (simp add: return_def)
next
  case (Cons d rest)
  let ?pid = "uuid_hex (uuid4 env (uuid_calls s))"
  let ?name = "Some (flatten_filepath posix_sep (str_of_path (data_path d)))"
  from Cons.prems obtain b sm where
    b: "read_bytes env (data_path d) = Inr b" and
    sm: "generate_system_metadata (binding env) (clock env (metadata_calls s)) ?pid
           (data_format d) (Bytes b) (user_orcid env) ?name = Inr sm" and
    rest: "upload_data env rest (acc @ [?pid])
             (s\<lparr>uuid_calls := Suc (uuid_calls s), metadata_calls := Suc (metadata_calls s),
                events := events s @ [Create ?pid (Bytes b) sm, Created ?pid]\<rparr>) = (Inr pids, s')"
    by (auto simp add: bind_def new_uuid_def lift_def system_metadata_def client_create_def
        Let_def split: sum.splits if_splits)
  from Cons.IH [OF rest] obtain calls where
    c: "events s' = (events s @ [Create ?pid (Bytes b) sm, Created ?pid]) @ upload_events calls"
       "pids = (acc @ [?pid]) @ map fst calls"
       "uuid_calls s' = Suc (uuid_calls s) + length rest"
       "map fst calls = map (\<lambda>i. uuid_hex (uuid4 env i)) [Suc (uuid_calls s) ..< Suc (uuid_calls s) + length rest]"
       "list_all2 (upload_of env) rest calls"
    by auto
  from sm b have u: "upload_of env d (?pid, Bytes b, sm)"
    by (auto simp add: upload_of_def gsm_Inr_iff coerce_def truthy_def Let_def)
  have r: "[uuid_calls s ..< uuid_calls s + length (d # rest)]
      = uuid_calls s # [Suc (uuid_calls s) ..< Suc (uuid_calls s) + length rest]"
    by (simp del: upt_Suc add: upt_conv_Cons)
  have "map fst ((?pid, Bytes b, sm) # calls)
      = map (\<lambda>i. uuid_hex (uuid4 env i)) [uuid_calls s ..< uuid_calls s + length (d # rest)]"
    unfolding r using c(4) by simp
  with c u show ?case
    by (intro exI [of _ "(?pid, Bytes b, sm) # calls"]) simp
qed

lemma quiet_return: "quiet (return x)"
  by (simp add: quiet_def return_def)

lemma quiet_lift: "quiet (lift r)"
  by (simp add: quiet_def lift_def)

lemma quiet_new_uuid: "quiet (new_uuid env)"
  by (simp add: quiet_def new_uuid_def)

lemma quiet_system_metadata: "quiet (system_metadata env pid format_id obj filename)"
  by (simp add: quiet_def system_metadata_def)

lemma quiet_client_create: "quiet (client_create env pid obj sysmeta)"
  by (auto simp add: quiet_def client_create_def split: if_splits)

lemma quiet_bind:
  assumes m: "quiet m" and f: "\<And>x. quiet (f x)"
  shows "quiet (bind m f)"
  unfolding quiet_def
proof (intro allI impI)
  fix s r s'
  assume run: "bind m f s = (r, s')"
  obtain r1 s1 where m1: "m s = (r1, s1)" by (cases "m s")
  with m obtain new1 where n1: "events s1 = events s @ new1" "\<forall>ev\<in>set new1. \<not> is_build ev"
    unfolding quiet_def by blast
  show "\<exists>new. events s' = events s @ new \<and> (\<forall>ev\<in>set new. \<not> is_build ev)"
  proof (cases r1)
    case (Inl e)
    with run m1 have "s' = s1" by (simp add: bind_def)
    with n1 show ?thesis by blast
  next
    case (Inr x)
    with run m1 have "f x s1 = (r, s')" by (simp add: bind_def)
    with f [of x] obtain new2 where
      "events s' = events s1 @ new2" "\<forall>ev\<in>set new2. \<not> is_build ev"
      unfolding quiet_def by blast
    with n1 show ?thesis
      by (intro exI [of _ "new1 @ new2"]) auto
  qed
qed

lemma quiet_upload_data: "quiet (upload_data env fs acc)"
proof (induction fs arbitrary: acc)
  case Nil
  show ?case by (simp add: quiet_return)
next
  case (Cons d rest)
  show ?case
    by (simp add: Let_def quiet_bind quiet_new_uuid quiet_lift quiet_system_metadata
        quiet_client_create Cons.IH)
qed

lemma quiet_upload_eml: "quiet (upload_eml env title)"
  by (simp add: upload_eml_def Let_def quiet_bind quiet_new_uuid quiet_lift
      quiet_system_metadata quiet_client_create quiet_return)

lemma quiet_make_title: "quiet (make_title env)"
  by (simp add: make_title_def quiet_bind quiet_new_uuid quiet_return)


lemma make_title_eq:
  "make_title env s
     = (Inr (lit ''Test data package '' @ take 8 (uuid_hex (uuid4 env (uuid_calls s)))),
        s\<lparr>uuid_calls := Suc (uuid_calls s)\<rparr>)"
  by (simp add: make_title_def bind_def new_uuid_def return_def)

lemma upload_eml_Inr:
  "upload_eml env title s = (Inr eml_pid, s') \<Longrightarrow>
     eml_pid = uuid_str (uuid4 env (uuid_calls s))
     \<and> uuid_calls s' = Suc (uuid_calls s)
     \<and> (\<exists>b sm. encode_utf8 (create_minimum_eml title) = Inr b
           \<and> formatId sm = lit ''eml://ecoinformatics.org/eml-2.1.1''
           \<and> events s' = events s @ upload_events [(eml_pid, Bytes b, sm)])"
  by (auto simp add: upload_eml_def bind_def new_uuid_def lift_def system_metadata_def
        client_create_def return_def Let_def gsm_Inr_iff split: sum.splits if_splits)

lemma upload_resource_map_events:
  assumes "upload_resource_map env eml_pid data_pids s = (r, s')"
  defines "ore_pid \<equiv> uuid_str (uuid4 env (uuid_calls s))"
  defines "obj \<equiv> serialize env (createSimpleResourceMap ore_pid eml_pid data_pids)"
  shows "\<exists>post. events s' = events s @ ResourceMapBuilt ore_pid eml_pid data_pids # post
           \<and> (post = [] \<or> (\<exists>sm. formatId sm = lit ''http://www.openarchives.org/ore/terms''
                 \<and> (post = [Create ore_pid obj sm] \<or> post = [Create ore_pid obj sm, Created ore_pid])))
           \<and> (\<forall>x. r = Inr x \<longrightarrow> x = ore_pid \<and> (\<exists>sm. post = [Create ore_pid obj sm, Created ore_pid]))"
  using assms(1) unfolding ore_pid_def obj_def
  by (auto simp add: upload_resource_map_def bind_def new_uuid_def build_resource_map_def
        system_metadata_def client_create_def return_def Let_def gsm_Inr_iff
        split: sum.splits if_splits)


lemma bind_Inl: "m s = (Inl e, s') \<Longrightarrow> bind m f s = (Inl e, s')"
  by (simp add: bind_def)

lemma bind_Inr: "m s = (Inr x, s') \<Longrightarrow> bind m f s = f x s'"
  by (simp add: bind_def)

lemma paths_of_files:
  "map data_path (files env) = sort (rglob env (lit ''tmp1'') @ rglob env (lit ''tmp2''))"
  by (simp add: files_def sorted_paths_def comp_def)

text \<open>
  Every run either ends with an exception before the resource map is built, or has
  uploaded the EML and every file of the list when it builds the resource map.
\<close>

lemma run_notebook_cases:
  assumes run: "run_notebook env = (r, s)"
  defines "title \<equiv> lit ''Test data package '' @ take 8 (uuid_hex (uuid4 env 0))"
  defines "eml_pid \<equiv> uuid_str (uuid4 env 1)"
  defines "ore_pid \<equiv> uuid_str (uuid4 env (2 + length (files env)))"
  shows "((\<exists>e. r = Inl e) \<and> (\<forall>ev\<in>set (events s). \<not> is_build ev))
       \<or> (\<exists>b sm calls post.
             encode_utf8 (create_minimum_eml title) = Inr b
           \<and> formatId sm = lit ''eml://ecoinformatics.org/eml-2.1.1''
           \<and> events s = upload_events ((eml_pid, Bytes b, sm) # calls)
                          @ ResourceMapBuilt ore_pid eml_pid (map fst calls) # post
           \<and> map fst calls = map (\<lambda>i. uuid_hex (uuid4 env i)) [2 ..< 2 + length (files env)]
           \<and> list_all2 (upload_of env) (files env) calls
           \<and> (post = [] \<or> (\<exists>osm. formatId osm = lit ''http://www.openarchives.org/ore/terms''
                 \<and> (post = [Create ore_pid
                               (serialize env (createSimpleResourceMap ore_pid eml_pid (map fst calls)))
                               osm]
                    \<or> post = [Create ore_pid
                               (serialize env (createSimpleResourceMap ore_pid eml_pid (map fst calls)))
                               osm, Created ore_pid])))
           \<and> (\<forall>x. r = Inr x \<longrightarrow> x = ore_pid \<and> (\<exists>osm. post =
                   [Create ore_pid
                      (serialize env (createSimpleResourceMap ore_pid eml_pid (map fst calls)))
                      osm, Created ore_pid])))"
proof -
  define s0 where "s0 = start\<lparr>uuid_calls := Suc 0\<rparr>"
  have s0: "events s0 = []" "uuid_calls s0 = Suc 0"
    by (simp_all add: s0_def start_def)
  have t: "make_title env start = (Inr title, s0)"
    by (simp add: make_title_eq title_def s0_def start_def)
  let ?rest = "\<lambda>eml_pid. bind (upload_data env (files env) [])
      (\<lambda>data_pids. upload_resource_map env eml_pid data_pids)"
  from run have run1: "bind (upload_eml env title) ?rest s0 = (r, s)"
    by (simp add: run_notebook_def Let_def bind_Inr [of "make_title env" start title s0, OF t])
  obtain r1 s1 where e1: "upload_eml env title s0 = (r1, s1)"
    by (cases "upload_eml env title s0")
  from quiet_upload_eml [of env title] e1 s0 have q1: "\<forall>ev\<in>set (events s1). \<not> is_build ev"
    unfolding quiet_def by fastforce
  show ?thesis
  proof (cases r1)
    case (Inl e)
    with run1 e1 bind_Inl [of "upload_eml env title" s0 e s1 ?rest]
    have "r = Inl e" "s = s1" by simp_all
    with q1 show ?thesis by blast
  next
    case (Inr p)
    with e1 have e1': "upload_eml env title s0 = (Inr p, s1)" by simp
    from upload_eml_Inr [OF e1'] s0 obtain b sm where
      p: "p = eml_pid" and u1: "uuid_calls s1 = 2" and
      b: "encode_utf8 (create_minimum_eml title) = Inr b" and
      sm: "formatId sm = lit ''eml://ecoinformatics.org/eml-2.1.1''" and
      ev1: "events s1 = upload_events [(eml_pid, Bytes b, sm)]"
      by (auto simp add: eml_pid_def)
    from run1 p bind_Inr [of "upload_eml env title" s0 p s1 ?rest, OF e1']
    have run2: "?rest eml_pid s1 = (r, s)" by simp
    obtain r2 s2 where e2: "upload_data env (files env) [] s1 = (r2, s2)"
      by (cases "upload_data env (files env) [] s1")
    from quiet_upload_data [of env "files env" "[]"] e2 q1
    have q2: "\<forall>ev\<in>set (events s2). \<not> is_build ev"
      unfolding quiet_def by fastforce
    show ?thesis
    proof (cases r2)
      case (Inl e)
      with run2 e2 bind_Inl [of "upload_data env (files env) []" s1 e s2
          "\<lambda>data_pids. upload_resource_map env eml_pid data_pids"]
      have "r = Inl e" "s = s2" by simp_all
      with q2 show ?thesis by blast
    next
      case (Inr data_pids)
      with e2 have e2': "upload_data env (files env) [] s1 = (Inr data_pids, s2)" by simp
      from upload_data_Inr [OF e2'] u1 ev1 obtain calls where
        c: "events s2 = upload_events ((eml_pid, Bytes b, sm) # calls)"
           "data_pids = map fst calls"
           "uuid_calls s2 = 2 + length (files env)"
           "map fst calls = map (\<lambda>i. uuid_hex (uuid4 env i)) [2 ..< 2 + length (files env)]"
           "list_all2 (upload_of env) (files env) calls"
        by auto
      from run2 bind_Inr [of "upload_data env (files env) []" s1 data_pids s2
          "\<lambda>data_pids. upload_resource_map env eml_pid data_pids", OF e2']
      have run3: "upload_resource_map env eml_pid data_pids s2 = (r, s)"
        by simp
      let ?obj = "serialize env (createSimpleResourceMap ore_pid eml_pid (map fst calls))"
      from upload_resource_map_events [OF run3] c(2,3) obtain post where
        post: "events s = events s2 @ ResourceMapBuilt ore_pid eml_pid (map fst calls) # post"
          "post = [] \<or> (\<exists>osm. formatId osm = lit ''http://www.openarchives.org/ore/terms''
              \<and> (post = [Create ore_pid ?obj osm]
                 \<or> post = [Create ore_pid ?obj osm, Created ore_pid]))"
          "\<forall>x. r = Inr x \<longrightarrow> x = ore_pid
              \<and> (\<exists>osm. post = [Create ore_pid ?obj osm, Created ore_pid])"
        unfolding ore_pid_def by auto
      from post(1) c(1) have ev: "events s = upload_events ((eml_pid, Bytes b, sm) # calls)
          @ ResourceMapBuilt ore_pid eml_pid (map fst calls) # post"
        by simp
      have "encode_utf8 (create_minimum_eml title) = Inr b
           \<and> formatId sm = lit ''eml://ecoinformatics.org/eml-2.1.1''
           \<and> events s = upload_events ((eml_pid, Bytes b, sm) # calls)
                          @ ResourceMapBuilt ore_pid eml_pid (map fst calls) # post
           \<and> map fst calls = map (\<lambda>i. uuid_hex (uuid4 env i)) [2 ..< 2 + length (files env)]
           \<and> list_all2 (upload_of env) (files env) calls
           \<and> (post = [] \<or> (\<exists>osm. formatId osm = lit ''http://www.openarchives.org/ore/terms''
                 \<and> (post = [Create ore_pid ?obj osm]
                    \<or> post = [Create ore_pid ?obj osm, Created ore_pid])))
           \<and> (\<forall>x. r = Inr x \<longrightarrow> x = ore_pid
                 \<and> (\<exists>osm. post = [Create ore_pid ?obj osm, Created ore_pid]))"
        using b sm ev c(4) c(5) post(2) post(3) by blast
      then show ?thesis by blast
    qed
  qed
qed


subsection \<open>UUIDs\<close>

lemma length_hex_digits: "length (hex_digits k n) = k"
  by (induction k arbitrary: n) auto

lemma hex_digits_range: "c \<in> set (hex_digits k n) \<Longrightarrow> 48 \<le> c \<and> c \<le> 102"
proof (induction k arbitrary: n)
  case 0
  then show ?case by simp
next
  case (Suc k)
  have "n mod 16 < 16" by simp
  then have "48 \<le> hex_digit (n mod 16) \<and> hex_digit (n mod 16) \<le> 102"
    unfolding hex_digit_def by auto
  with Suc show ?case by auto
qed

lemma hex_digit_inj: "a < 16 \<Longrightarrow> b < 16 \<Longrightarrow> hex_digit a = hex_digit b \<Longrightarrow> a = b"
  by (auto simp add: hex_digit_def split: if_splits)

lemma hex_digits_inj:
  "n < 16 ^ k \<Longrightarrow> m < 16 ^ k \<Longrightarrow> hex_digits k n = hex_digits k m \<Longrightarrow> n = m"
proof (induction k arbitrary: n m)
  case 0
  then show ?case by simp
next
  case (Suc k)
  from Suc.prems(3) have d: "hex_digits k (n div 16) = hex_digits k (m div 16)"
    and l: "hex_digit (n mod 16) = hex_digit (m mod 16)"
    by simp_all
  from Suc.prems(1,2) have "n div 16 < 16 ^ k" "m div 16 < 16 ^ k"
    by (simp_all add: less_mult_imp_div_less mult.commute)
  from Suc.IH [OF this d] have q: "n div 16 = m div 16" .
  from hex_digit_inj [OF _ _ l] have r: "n mod 16 = m mod 16" by simp
  from q r show ?case by (metis div_mult_mod_eq)
qed

lemma length_uuid_hex: "length (uuid_hex u) = 32"
  by (simp add: uuid_hex_def length_hex_digits)

lemma length_uuid_str: "length (uuid_str u) = 36"
  by (simp add: uuid_str_def Let_def length_uuid_hex lit_def)

lemma uuid_hex_inj: "uuid_hex u = uuid_hex v \<Longrightarrow> u = v"
proof -
  assume h: "uuid_hex u = uuid_hex v"
  have "unat u < 2 ^ 128" "unat v < 2 ^ 128"
    using unsigned_less [of u, where ?'a = nat] unsigned_less [of v, where ?'a = nat]
    by simp_all
  then have "unat u < 16 ^ 32" "unat v < 16 ^ 32" by simp_all
  from hex_digits_inj [OF this] h have "unat u = unat v" by (simp add: uuid_hex_def)
  then show "u = v" by (simp add: word_unat_eq_iff)
qed

lemma uuid_str_not_hex: "uuid_str u \<noteq> uuid_hex v"
  using length_uuid_str [of u] length_uuid_hex [of v] by auto

lemma uuid_hex_chars: "c \<in> set (uuid_hex u) \<Longrightarrow> 48 \<le> c \<and> c \<le> 102"
  unfolding uuid_hex_def by (rule hex_digits_range)

lemma uuid_str_chars: "c \<in> set (uuid_str u) \<Longrightarrow> 45 \<le> c \<and> c \<le> 102"
proof -
  assume "c \<in> set (uuid_str u)"
  then have "c = 45 \<or> c \<in> set (uuid_hex u)"
    by (auto simp add: uuid_str_def Let_def lit_def dest: in_set_takeD in_set_dropD)
  with uuid_hex_chars [of c u] show ?thesis by auto
qed

lemma lit_range: "c \<in> set (lit s) \<Longrightarrow> c < 256"
proof -
  assume "c \<in> set (lit s)"
  then obtain x where "c = of_char x" by (auto simp add: lit_def)
  moreover have "(of_char x :: nat) mod 256 = of_char x" by (rule of_char_mod_256)
  ultimately show ?thesis by (metis mod_less_divisor zero_less_numeral)
qed

lemma ascii_no_surrogate: "c < 256 \<Longrightarrow> \<not> surrogate c"
  by (simp add: surrogate_def)

lemma create_minimum_eml_no_surrogate:
  assumes "\<forall>c\<in>set title. \<not> surrogate c"
  shows "\<forall>c\<in>set (create_minimum_eml title). \<not> surrogate c"
  using assms unfolding create_minimum_eml_def Let_def
  by (auto dest!: lit_range simp add: surrogate_def)

lemma title_no_surrogate:
  "\<forall>c\<in>set (lit ''Test data package '' @ take 8 (uuid_hex u)). \<not> surrogate c"
  by (auto dest!: lit_range in_set_takeD uuid_hex_chars simp add: surrogate_def)

lemma upload_eml_completes:
  assumes "cooperative env" and "\<forall>c\<in>set title. \<not> surrogate c"
  shows "\<exists>eml_pid s'. upload_eml env title s = (Inr eml_pid, s')"
proof -
  from create_minimum_eml_no_surrogate [OF assms(2)] obtain b where
    b: "encode_utf8 (create_minimum_eml title) = Inr b"
    using encode_from_ok [of "create_minimum_eml title" 0] by (auto simp add: encode_utf8_def)
  from assms(1) show ?thesis
    by (simp add: upload_eml_def bind_def new_uuid_def lift_def b system_metadata_def
        generate_system_metadata_def coerce_def assign_def truthy_def Let_def
        client_create_def return_def cooperative_def)
qed

lemma upload_data_completes:
  assumes "cooperative env"
  shows "set fs \<subseteq> set (files env) \<Longrightarrow> \<exists>pids s'. upload_data env fs acc s = (Inr pids, s')"
proof (induction fs arbitrary: acc s)
  case Nil
  show ?case by (simp add: return_def)
next
  case (Cons d rest)
  from Cons.prems have d: "d \<in> set (files env)" and rest: "set rest \<subseteq> set (files env)"
    by simp_all
  from d have fmt: "data_format d = lit ''text/plain''"
    by (auto simp add: files_def)
  from d assms obtain b where b: "read_bytes env (data_path d) = Inr b"
    by (auto simp add: cooperative_def)
  from d assms have n: "accepts_fileName (binding env)
      (flatten_filepath posix_sep (str_of_path (data_path d)))"
    by (auto simp add: cooperative_def)
  from assms Cons.IH [OF rest] n show ?case
    by (simp add: bind_def new_uuid_def lift_def b fmt system_metadata_def
        generate_system_metadata_def coerce_def assign_def truthy_def Let_def
        client_create_def cooperative_def)
qed

lemma upload_resource_map_completes:
  assumes "cooperative env"
  shows "\<exists>ore_pid s'. upload_resource_map env eml_pid data_pids s = (Inr ore_pid, s')"
proof -
  let ?ore = "createSimpleResourceMap (uuid_str (uuid4 env (uuid_calls s))) eml_pid data_pids"
  from assms obtain b where b: "coerce (serialize env ?ore) = Inr b"
    unfolding cooperative_def by blast
  from assms show ?thesis
    by (simp add: upload_resource_map_def bind_def new_uuid_def build_resource_map_def
        system_metadata_def generate_system_metadata_def b assign_def truthy_def Let_def
        client_create_def return_def cooperative_def)
qed

lemma run_notebook_completes:
  assumes "cooperative env"
  shows "\<exists>ore_pid s. run_notebook env = (Inr ore_pid, s)"
proof -
  let ?title = "lit ''Test data package '' @ take 8 (uuid_hex (uuid4 env 0))"
  let ?s0 = "start\<lparr>uuid_calls := Suc 0\<rparr>"
  have t: "make_title env start = (Inr ?title, ?s0)"
    by (simp add: make_title_eq start_def)
  from upload_eml_completes [OF assms title_no_surrogate] obtain eml_pid s1 where
    e1: "upload_eml env ?title ?s0 = (Inr eml_pid, s1)" by blast
  from upload_data_completes [OF assms subset_refl] obtain data_pids s2 where
    e2: "upload_data env (files env) [] s1 = (Inr data_pids, s2)" by blast
  from upload_resource_map_completes [OF assms] obtain ore_pid s3 where
    e3: "upload_resource_map env eml_pid data_pids s2 = (Inr ore_pid, s3)" by blast
  have "run_notebook env = (Inr ore_pid, s3)"
    by (simp add: run_notebook_def Let_def bind_def t e1 e2 e3)
  then show ?thesis by blast
qed

text \<open>
  Claim C9. In every run, also one that ends with an exception, the events before the
  building of the resource map are the completed upload of the EML followed by the
  completed uploads of all files of the list, one after the other in the order of the
  list; the list is the sorted arrangement of the paths found below the two
  directories; the identifiers given to the resource map are those of the uploads of
  the files in this order; and the only \<^verbatim>\<open>create\<close> after the building is that of the resource
  map.
\<close>

theorem uploads_before_resource_map:
  assumes log: "events (snd (run_notebook env))
      = pre @ ResourceMapBuilt ore_pid eml_pid data_pids # post"
  shows "\<exists>eml calls.
            pre = upload_events (eml # calls)
          \<and> fst eml = eml_pid
          \<and> map fst calls = data_pids
          \<and> list_all2 (upload_of env) (files env) calls
          \<and> sorted (map data_path (files env))
          \<and> mset (map data_path (files env))
              = mset (rglob env (lit ''tmp1'') @ rglob env (lit ''tmp2''))
          \<and> (\<forall>ev\<in>set post. ev = Created ore_pid
                \<or> (\<exists>sysmeta. ev = Create ore_pid
                      (serialize env (createSimpleResourceMap ore_pid eml_pid data_pids))
                      sysmeta))"
proof -
  obtain r s where run: "run_notebook env = (r, s)"
    by (cases "run_notebook env")
  with log have ev: "events s = pre @ ResourceMapBuilt ore_pid eml_pid data_pids # post"
    by simp
  then have "\<exists>ev\<in>set (events s). is_build ev" by simp
  with run_notebook_cases [OF run] obtain b sm calls post' where
    shape: "events s = upload_events ((uuid_str (uuid4 env 1), Bytes b, sm) # calls)
        @ ResourceMapBuilt (uuid_str (uuid4 env (2 + length (files env))))
            (uuid_str (uuid4 env 1)) (map fst calls) # post'"
    and files: "list_all2 (upload_of env) (files env) calls"
    and post': "post' = [] \<or> (\<exists>osm. formatId osm = lit ''http://www.openarchives.org/ore/terms''
        \<and> (post' = [Create (uuid_str (uuid4 env (2 + length (files env))))
              (serialize env (createSimpleResourceMap
                 (uuid_str (uuid4 env (2 + length (files env))))
                 (uuid_str (uuid4 env 1)) (map fst calls))) osm]
          \<or> post' = [Create (uuid_str (uuid4 env (2 + length (files env))))
              (serialize env (createSimpleResourceMap
                 (uuid_str (uuid4 env (2 + length (files env))))
                 (uuid_str (uuid4 env 1)) (map fst calls))) osm,
              Created (uuid_str (uuid4 env (2 + length (files env))))]))"
    by blast
  from post' have quiet': "\<forall>ev\<in>set post'. \<not> is_build ev" by auto
  have quiet: "\<forall>ev\<in>set (upload_events ((uuid_str (uuid4 env 1), Bytes b, sm) # calls)).
      \<not> is_build ev"
    using no_build_upload_events by blast
  from first_build [OF shape [unfolded ev, symmetric] quiet quiet'] 
  have same: "pre = upload_events ((uuid_str (uuid4 env 1), Bytes b, sm) # calls)"
    "ResourceMapBuilt ore_pid eml_pid data_pids
       = ResourceMapBuilt (uuid_str (uuid4 env (2 + length (files env))))
            (uuid_str (uuid4 env 1)) (map fst calls)"
    "post = post'"
    by simp_all
  have sorted: "sorted (map data_path (files env))"
    "mset (map data_path (files env)) = mset (rglob env (lit ''tmp1'') @ rglob env (lit ''tmp2''))"
    by (simp_all add: paths_of_files)
  from same post' have "\<forall>ev\<in>set post. ev = Created ore_pid
      \<or> (\<exists>sysmeta. ev = Create ore_pid
            (serialize env (createSimpleResourceMap ore_pid eml_pid data_pids)) sysmeta)"
    by auto
  with same files sorted show ?thesis
    by (intro exI [of _ "(uuid_str (uuid4 env 1), Bytes b, sm)"] exI [of _ calls]) simp
qed

lemma cooperative_example: "cooperative example_environment"
proof -
  have files: "files example_environment =
      [\<lparr>data_path = [lit ''tmp1'', lit ''file1.txt''], data_format = lit ''text/plain''\<rparr>,
       \<lparr>data_path = [lit ''tmp1'', lit ''file2.txt''], data_format = lit ''text/plain''\<rparr>,
       \<lparr>data_path = [lit ''tmp2'', lit ''file1.txt''], data_format = lit ''text/plain''\<rparr>,
       \<lparr>data_path = [lit ''tmp2'', lit ''file2.txt''], data_format = lit ''text/plain''\<rparr>]"
    by (simp add: files_def sorted_paths_def example_environment_def lit_def)
  have ids: "accepts_identifier example_binding (uuid_str u)
      \<and> accepts_identifier example_binding (uuid_hex u)" for u
    using length_uuid_str [of u] length_uuid_hex [of u] uuid_str_chars [of 32 u]
      uuid_hex_chars [of 32 u]
    by (auto simp add: example_binding_def)
  have reads: "\<forall>data\<in>set (files example_environment).
      (\<exists>b. read_bytes example_environment (data_path data) = Inr b)
      \<and> accepts_fileName (binding example_environment)
           (flatten_filepath posix_sep (str_of_path (data_path data)))"
    unfolding files by (simp add: example_environment_def example_binding_def lit_def)
  show ?thesis
    unfolding cooperative_def
    apply (intro conjI allI)
            apply (simp_all add: reads)
           apply (simp_all add: example_environment_def ids coerce_def)
       apply (simp_all add: example_binding_def example_orcid_def lit_def)
    done
qed

lemma upt_7: "[0..<7] = [0, 1, 2, 3, 4, 5, 6]"
  by code_simp

lemma distinct_example: "distinct (map (uuid4 example_environment) [0..<7])"
  unfolding upt_7 by (simp add: example_environment_def)

theorem uploads_before_resource_map_witness:
  "\<exists>pre ore_pid eml_pid data_pids post eml calls.
      events (snd (run_notebook example_environment))
        = pre @ ResourceMapBuilt ore_pid eml_pid data_pids # post
    \<and> pre = upload_events (eml # calls)
    \<and> fst eml = eml_pid \<and> map fst calls = data_pids
    \<and> list_all2 (upload_of example_environment) (files example_environment) calls
    \<and> map data_path (files example_environment)
        = [[lit ''tmp1'', lit ''file1.txt''], [lit ''tmp1'', lit ''file2.txt''],
           [lit ''tmp2'', lit ''file1.txt''], [lit ''tmp2'', lit ''file2.txt'']]"
proof -
  from run_notebook_completes [OF cooperative_example] obtain ore_pid s where
    run: "run_notebook example_environment = (Inr ore_pid, s)" by blast
  from run_notebook_cases [OF run] obtain b sm calls post where
    "events s = upload_events ((uuid_str (uuid4 example_environment 1), Bytes b, sm) # calls)
        @ ResourceMapBuilt (uuid_str (uuid4 example_environment (2 + length (files example_environment))))
            (uuid_str (uuid4 example_environment 1)) (map fst calls) # post"
    by blast
  then have ev: "events (snd (run_notebook example_environment))
        = upload_events ((uuid_str (uuid4 example_environment 1), Bytes b, sm) # calls)
        @ ResourceMapBuilt (uuid_str (uuid4 example_environment (2 + length (files example_environment))))
            (uuid_str (uuid4 example_environment 1)) (map fst calls) # post"
    unfolding run by simp
  have files: "map data_path (files example_environment)
        = [[lit ''tmp1'', lit ''file1.txt''], [lit ''tmp1'', lit ''file2.txt''],
           [lit ''tmp2'', lit ''file1.txt''], [lit ''tmp2'', lit ''file2.txt'']]"
    by (simp add: files_def sorted_paths_def example_environment_def lit_def)
  from uploads_before_resource_map [OF ev] obtain eml calls' where
    c: "upload_events ((uuid_str (uuid4 example_environment 1), Bytes b, sm) # calls)
          = upload_events (eml # calls')"
       "fst eml = uuid_str (uuid4 example_environment 1)"
       "map fst calls' = map fst calls"
       "list_all2 (upload_of example_environment) (files example_environment) calls'"
    by blast
  show ?thesis
    apply (rule exI [of _ "upload_events
        ((uuid_str (uuid4 example_environment 1), Bytes b, sm) # calls)"])
    apply (rule exI [of _ "uuid_str (uuid4 example_environment
        (2 + length (files example_environment)))"])
    apply (rule exI [of _ "uuid_str (uuid4 example_environment 1)"])
    apply (rule exI [of _ "map fst calls"])
    apply (rule exI [of _ post])
    apply (rule exI [of _ eml])
    apply (rule exI [of _ calls'])
    using ev c files apply simp
    done
qed

lemma length_files:
  "length (files env) = length (rglob env (lit ''tmp1'')) + length (rglob env (lit ''tmp2''))"
  by (simp add: files_def sorted_paths_def)

lemma upt_2_6: "[0..<7] = [0, 1] @ [2..<2 + 4] @ [6]"
  by code_simp

lemma distinct_data_pids:
  assumes "distinct (map (uuid4 env) [0..<7])"
  shows "distinct (uuid_str (uuid4 env 1) # map (\<lambda>i. uuid_hex (uuid4 env i)) [2..<2 + 4])"
proof -
  from assms have d: "distinct (map (uuid4 env) [2..<2 + 4])"
    unfolding upt_2_6 by simp
  have "inj_on uuid_hex (set (map (uuid4 env) [2..<2 + 4]))"
    by (rule inj_onI) (rule uuid_hex_inj)
  with d have "distinct (map uuid_hex (map (uuid4 env) [2..<2 + 4]))"
    by (simp add: distinct_map)
  then have "distinct (map (\<lambda>i. uuid_hex (uuid4 env i)) [2..<2 + 4])"
    by (simp add: comp_def)
  moreover have "uuid_str (uuid4 env 1) \<notin> set (map (\<lambda>i. uuid_hex (uuid4 env i)) [2..<2 + 4])"
    using uuid_str_not_hex by auto
  ultimately show ?thesis by simp
qed

lemma second_case: "A \<or> B \<Longrightarrow> \<not> A \<Longrightarrow> B"
  by blast

text \<open>
  Claim C2. With two entries below each of the two directories and seven distinct
  UUIDs, a run in which the outside parties cooperate ends without exception, and every
  run that ends without exception has made exactly six calls of \<^verbatim>\<open>client.create\<close>: for
  the EML, for the four files, and for the resource map. The resource map of the last
  call is built from the identifier of the EML and the identifiers of the four files,
  which are the identifiers it aggregates, each of them once.
\<close>

theorem end_to_end_six_creates:
  assumes two: "length (rglob env (lit ''tmp1'')) = 2" "length (rglob env (lit ''tmp2'')) = 2"
    and fresh: "distinct (map (uuid4 env) [0..<7])"
  shows "(cooperative env \<longrightarrow> (\<exists>ore_pid s. run_notebook env = (Inr ore_pid, s)))
       \<and> (\<forall>ore_pid s. run_notebook env = (Inr ore_pid, s) \<longrightarrow>
            (\<exists>eml calls osm.
                length calls = 4
              \<and> list_all2 (upload_of env) (files env) calls
              \<and> formatId (snd (snd eml)) = lit ''eml://ecoinformatics.org/eml-2.1.1''
              \<and> formatId osm = lit ''http://www.openarchives.org/ore/terms''
              \<and> events s = upload_events (eml # calls)
                   @ [ResourceMapBuilt ore_pid (fst eml) (map fst calls),
                      Create ore_pid
                        (serialize env (createSimpleResourceMap ore_pid (fst eml) (map fst calls)))
                        osm,
                      Created ore_pid]
              \<and> length (create_calls (events s)) = 6
              \<and> aggregates (createSimpleResourceMap ore_pid (fst eml) (map fst calls))
                  = fst eml # map fst calls
              \<and> distinct (fst eml # map fst calls)))"
proof (intro conjI allI impI)
  assume "cooperative env"
  then show "\<exists>ore_pid s. run_notebook env = (Inr ore_pid, s)"
    by (rule run_notebook_completes)
next
  fix ore_pid s
  assume run: "run_notebook env = (Inr ore_pid, s)"
  from two have four: "length (files env) = 4" by (simp add: length_files)
  let ?eml_pid = "uuid_str (uuid4 env 1)"
  let ?ore = "uuid_str (uuid4 env (2 + 4))"
  have "\<not> ((\<exists>e. (Inr ore_pid :: py_error + py_str) = Inl e)
      \<and> (\<forall>ev\<in>set (events s). \<not> is_build ev))"
    by simp
  with run_notebook_cases [OF run, unfolded four] have
    "\<exists>b sm calls post.
         encode_utf8 (create_minimum_eml
           (lit ''Test data package '' @ take 8 (uuid_hex (uuid4 env 0)))) = Inr b
       \<and> formatId sm = lit ''eml://ecoinformatics.org/eml-2.1.1''
       \<and> events s = upload_events ((?eml_pid, Bytes b, sm) # calls)
                      @ ResourceMapBuilt ?ore ?eml_pid (map fst calls) # post
       \<and> map fst calls = map (\<lambda>i. uuid_hex (uuid4 env i)) [2 ..< 2 + 4]
       \<and> list_all2 (upload_of env) (files env) calls
       \<and> (post = [] \<or> (\<exists>osm. formatId osm = lit ''http://www.openarchives.org/ore/terms''
             \<and> (post = [Create ?ore
                           (serialize env (createSimpleResourceMap ?ore ?eml_pid (map fst calls)))
                           osm]
                \<or> post = [Create ?ore
                           (serialize env (createSimpleResourceMap ?ore ?eml_pid (map fst calls)))
                           osm, Created ?ore])))
       \<and> (\<forall>x. (Inr ore_pid :: py_error + py_str) = Inr x \<longrightarrow> x = ?ore \<and> (\<exists>osm. post =
               [Create ?ore
                  (serialize env (createSimpleResourceMap ?ore ?eml_pid (map fst calls)))
                  osm, Created ?ore]))"
    by (rule second_case)
  then obtain b sm calls post where big:
        "encode_utf8 (create_minimum_eml
           (lit ''Test data package '' @ take 8 (uuid_hex (uuid4 env 0)))) = Inr b
       \<and> formatId sm = lit ''eml://ecoinformatics.org/eml-2.1.1''
       \<and> events s = upload_events ((?eml_pid, Bytes b, sm) # calls)
                      @ ResourceMapBuilt ?ore ?eml_pid (map fst calls) # post
       \<and> map fst calls = map (\<lambda>i. uuid_hex (uuid4 env i)) [2 ..< 2 + 4]
       \<and> list_all2 (upload_of env) (files env) calls
       \<and> (post = [] \<or> (\<exists>osm. formatId osm = lit ''http://www.openarchives.org/ore/terms''
             \<and> (post = [Create ?ore
                           (serialize env (createSimpleResourceMap ?ore ?eml_pid (map fst calls)))
                           osm]
                \<or> post = [Create ?ore
                           (serialize env (createSimpleResourceMap ?ore ?eml_pid (map fst calls)))
                           osm, Created ?ore])))
       \<and> (\<forall>x. (Inr ore_pid :: py_error + py_str) = Inr x \<longrightarrow> x = ?ore \<and> (\<exists>osm. post =
               [Create ?ore
                  (serialize env (createSimpleResourceMap ?ore ?eml_pid (map fst calls)))
                  osm, Created ?ore]))"
    by (elim exE)
  from big have sm: "formatId sm = lit ''eml://ecoinformatics.org/eml-2.1.1''"
    by (elim conjE)
  from big have ev: "events s = upload_events ((?eml_pid, Bytes b, sm) # calls)
                      @ ResourceMapBuilt ?ore ?eml_pid (map fst calls) # post"
    by (elim conjE)
  from big have pids: "map fst calls = map (\<lambda>i. uuid_hex (uuid4 env i)) [2 ..< 2 + 4]"
    by (elim conjE)
  from big have files: "list_all2 (upload_of env) (files env) calls"
    by (elim conjE)
  from big have post: "post = [] \<or> (\<exists>osm. formatId osm = lit ''http://www.openarchives.org/ore/terms''
             \<and> (post = [Create ?ore
                           (serialize env (createSimpleResourceMap ?ore ?eml_pid (map fst calls)))
                           osm]
                \<or> post = [Create ?ore
                           (serialize env (createSimpleResourceMap ?ore ?eml_pid (map fst calls)))
                           osm, Created ?ore]))"
    by (elim conjE)
  from big have res0: "\<forall>x. (Inr ore_pid :: py_error + py_str) = Inr x \<longrightarrow> x = ?ore \<and> (\<exists>osm. post =
               [Create ?ore
                  (serialize env (createSimpleResourceMap ?ore ?eml_pid (map fst calls)))
                  osm, Created ?ore])"
    by (elim conjE)
  from res0 have res: "ore_pid = ?ore" and res': "\<exists>osm. post =
               [Create ?ore
                  (serialize env (createSimpleResourceMap ?ore ?eml_pid (map fst calls)))
                  osm, Created ?ore]"
    by simp_all
  let ?obj = "serialize env (createSimpleResourceMap ore_pid ?eml_pid (map fst calls))"
  from res' post res obtain osm where
    osm: "formatId osm = lit ''http://www.openarchives.org/ore/terms''" and
    post': "post = [Create ore_pid ?obj osm, Created ore_pid]"
    by auto
  from files four have len: "length calls = 4"
    by (simp add: list_all2_lengthD [symmetric])
  from distinct_data_pids [OF fresh] pids
  have dist: "distinct (?eml_pid # map fst calls)" by simp
  have cc: "length (create_calls (events s)) = 6"
    unfolding ev post' using len
    by (simp add: create_calls_append create_calls_upload_events)
  have ev': "events s = upload_events ((?eml_pid, Bytes b, sm) # calls)
       @ [ResourceMapBuilt ore_pid ?eml_pid (map fst calls), Create ore_pid ?obj osm,
          Created ore_pid]"
    using ev res post' by simp
  show "\<exists>eml calls osm.
          length calls = 4
        \<and> list_all2 (upload_of env) (files env) calls
        \<and> formatId (snd (snd eml)) = lit ''eml://ecoinformatics.org/eml-2.1.1''
        \<and> formatId osm = lit ''http://www.openarchives.org/ore/terms''
        \<and> events s = upload_events (eml # calls)
             @ [ResourceMapBuilt ore_pid (fst eml) (map fst calls),
                Create ore_pid
                  (serialize env (createSimpleResourceMap ore_pid (fst eml) (map fst calls)))
                  osm,
                Created ore_pid]
        \<and> length (create_calls (events s)) = 6
        \<and> aggregates (createSimpleResourceMap ore_pid (fst eml) (map fst calls))
            = fst eml # map fst calls
        \<and> distinct (fst eml # map fst calls)"
    apply (rule exI [of _ "(?eml_pid, Bytes b, sm)"])
    apply (rule exI [of _ calls])
    apply (rule exI [of _ osm])
    using len files sm osm ev' cc dist
    apply (simp add: aggregates_def createSimpleResourceMap_def)
    done
qed

theorem end_to_end_six_creates_witness:
  "\<exists>ore_pid s. run_notebook example_environment = (Inr ore_pid, s)
      \<and> length (create_calls (events s)) = 6
      \<and> (\<exists>eml_pid data_pids. length data_pids = 4
            \<and> map fst (create_calls (events s)) = eml_pid # data_pids @ [ore_pid]
            \<and> distinct (eml_pid # data_pids))"
proof -
  have two: "length (rglob example_environment (lit ''tmp1'')) = 2"
    "length (rglob example_environment (lit ''tmp2'')) = 2"
    by (simp_all add: example_environment_def)
  note t = end_to_end_six_creates [OF two distinct_example]
  from t [THEN conjunct1] cooperative_example obtain ore_pid s where
    run: "run_notebook example_environment = (Inr ore_pid, s)" by blast
  from t [THEN conjunct2, rule_format, OF run] obtain eml calls osm where
    c: "length calls = 4
      \<and> list_all2 (upload_of example_environment) (files example_environment) calls
      \<and> formatId (snd (snd eml)) = lit ''eml://ecoinformatics.org/eml-2.1.1''
      \<and> formatId osm = lit ''http://www.openarchives.org/ore/terms''
      \<and> events s = upload_events (eml # calls)
           @ [ResourceMapBuilt ore_pid (fst eml) (map fst calls),
              Create ore_pid
                (serialize example_environment
                   (createSimpleResourceMap ore_pid (fst eml) (map fst calls)))
                osm,
              Created ore_pid]
      \<and> length (create_calls (events s)) = 6
      \<and> aggregates (createSimpleResourceMap ore_pid (fst eml) (map fst calls))
          = fst eml # map fst calls
      \<and> distinct (fst eml # map fst calls)"
    by (elim exE)
  from c have ev: "events s = upload_events (eml # calls)
           @ [ResourceMapBuilt ore_pid (fst eml) (map fst calls),
              Create ore_pid
                (serialize example_environment
                   (createSimpleResourceMap ore_pid (fst eml) (map fst calls)))
                osm,
              Created ore_pid]"
    by (elim conjE)
  have m: "map fst (create_calls (events s)) = fst eml # map fst calls @ [ore_pid]"
    unfolding ev by (cases eml) (simp add: create_calls_append create_calls_upload_events)
  from c have l: "length calls = 4" "length (create_calls (events s)) = 6"
    "distinct (fst eml # map fst calls)"
    by blast+
  have "length (map fst calls) = 4
      \<and> map fst (create_calls (events s)) = fst eml # map fst calls @ [ore_pid]
      \<and> distinct (fst eml # map fst calls)"
    using l(1) m l(3) by simp
  then have "\<exists>eml_pid data_pids. length data_pids = 4
      \<and> map fst (create_calls (events s)) = eml_pid # data_pids @ [ore_pid]
      \<and> distinct (eml_pid # data_pids)"
    by (intro exI)
  with run l(2) have "run_notebook example_environment = (Inr ore_pid, s)
      \<and> length (create_calls (events s)) = 6
      \<and> (\<exists>eml_pid data_pids. length data_pids = 4
            \<and> map fst (create_calls (events s)) = eml_pid # data_pids @ [ore_pid]
            \<and> distinct (eml_pid # data_pids))"
    by (intro conjI)
  then show ?thesis
    by (intro exI)
qed

section \<open>Properties of the EML document\<close>



lemma find_title:
  "find_after (lit ''<title>'') (create_minimum_eml title)
     = Some (title @ 60 # drop 1 (lit ''</title>'') 
          @ lit (''<creator><individualName><surName>Test user</surName></individualName></creator>''
           @ ''<contact><individualName><surName>Test user</surName></individualName></contact>''
           @ ''</dataset></eml:eml>''))"
  by (simp add: create_minimum_eml_def Let_def lit_def)





text \<open>
  Each of the other exclusions is needed as well: a title with \<^verbatim>\<open><\<close> puts markup into
  the element, a carriage return is read as a line feed, and a control character or
  \<^verbatim>\<open>]]>\<close> makes the document ill-formed.
\<close>

lemma title_with_markup_not_read:
  "read_title (create_minimum_eml (lit ''a<b'')) = Inl MarkupInTitle"
  unfolding read_title_def find_title by (simp add: lit_def xml_char_def)

lemma title_with_carriage_return_changed:
  "read_title (create_minimum_eml [97, 13, 98]) = Inr [97, 10, 98]"
  unfolding read_title_def find_title by (simp add: lit_def xml_char_def)

lemma title_with_control_character_rejected:
  "read_title (create_minimum_eml [97, 0]) = Inl NotWellFormed"
  unfolding read_title_def find_title by (simp add: lit_def xml_char_def)

lemma title_with_cdata_end_rejected:
  "read_title (create_minimum_eml (lit ''x]]>'')) = Inl NotWellFormed"
  unfolding read_title_def find_title by (simp add: lit_def xml_char_def)





section \<open>The identifier\<close>

text \<open>
  \<^verbatim>\<open>generate_system_metadata\<close> does not test the identifier itself. Whether a call with an
  identifier fails is decided by the binding at the assignment to the element, after the
  coercion of the payload: for a payload of bytes, the call fails at the identifier
  exactly when the binding rejects it. The binding of the examples, with the facets of
  the DataONE schema, rejects the empty identifier.
\<close>

lemma rejected_identifier:
  "generate_system_metadata T now pid format_id (Bytes P) orcid filename
     = Inl (ValidationError (lit ''identifier'')) \<longleftrightarrow> \<not> accepts_identifier T pid"
  by (auto simp add: generate_system_metadata_def coerce_def assign_def Let_def lit_def
      split: if_splits)

lemma empty_identifier_example:
  "generate_system_metadata example_binding 0 [] (lit ''text/plain'') (Bytes [1, 2])
      example_orcid None = Inl (ValidationError (lit ''identifier''))"
  by (simp add: rejected_identifier example_binding_def)


end
